theory Spec2Isabelle
  imports Complex_Main "HOL-Library.Sublist" "HOL-Library.AList"
begin

section \<open>Strings as the agent uses them\<close>

text \<open>
  Python strings are modelled as \<open>string\<close>, one \<open>char\<close> per code point, for code points
  below 256. \<open>str.lower\<close>, \<open>str.isspace\<close>, \<open>str.strip\<close>, \<open>str.split\<close> (no arguments)
  and the substring test \<open>needle in haystack\<close> are written out for that range.
\<close>

definition lower_char :: "char \<Rightarrow> char" where
  "lower_char c =
     (let n = (of_char c :: nat)
      in if (65 \<le> n \<and> n \<le> 90) \<or> (192 \<le> n \<and> n \<le> 222 \<and> n \<noteq> 215)
         then char_of (n + 32) else c)"

definition str_lower :: "string \<Rightarrow> string" where
  "str_lower s = map lower_char s"

definition is_space :: "char \<Rightarrow> bool" where
  "is_space c =
     (let n = (of_char c :: nat)
      in (9 \<le> n \<and> n \<le> 13) \<or> (28 \<le> n \<and> n \<le> 32) \<or> n = 133 \<or> n = 160)"

definition str_strip :: "string \<Rightarrow> string" where
  "str_strip s = rev (dropWhile is_space (rev (dropWhile is_space s)))"

text \<open>\<open>split_acc cur s\<close>: the word being read is \<open>cur\<close>; whitespace ends it.\<close>

fun split_acc :: "string \<Rightarrow> string \<Rightarrow> string list" where
  "split_acc cur [] = (if cur = [] then [] else [cur])"
| "split_acc cur (c # cs) =
     (if is_space c
      then (if cur = [] then split_acc [] cs else cur # split_acc [] cs)
      else split_acc (cur @ [c]) cs)"

definition str_split :: "string \<Rightarrow> string list" where
  "str_split s = split_acc [] s"

text \<open>\<open>str_in needle hay\<close> is Python's \<open>needle in hay\<close>.\<close>

fun str_in :: "string \<Rightarrow> string \<Rightarrow> bool" where
  "str_in needle [] = (needle = [])"
| "str_in needle (c # cs) = (prefix needle (c # cs) \<or> str_in needle cs)"


section \<open>The environment: operating system, accessibility and OCR backends\<close>

text \<open>
  Everything the agent asks of pywinauto, pyautogui, pytesseract, \<open>time\<close> and \<open>difflib\<close>
  is an operation of the environment. The state of the outside world is a value of an
  arbitrary type \<open>'os\<close>; an operation reads it and returns the world it leaves behind.
  An operation that the source wraps in \<open>try\<close>/\<open>except\<close> has a result that says whether
  it raised.
\<close>

type_synonym win = nat  \<comment> \<open>a connected window (pywinauto WindowSpecification)\<close>
type_synonym elem = nat \<comment> \<open>an element of the accessibility tree\<close>

text \<open>One entry of \<open>Desktop(backend="uia").windows()\<close>; a title of \<open>None\<close> is a
  \<open>window_text()\<close> that raised, a size of \<open>None\<close> a \<open>rectangle()\<close> that raised.\<close>

record win_info =
  wi_title :: "string option"
  wi_handle :: nat
  wi_size :: "(int \<times> int) option"

text \<open>\<open>Application.connect(...)\<close> followed by \<open>top_window()\<close> and \<open>exists(timeout)\<close>.\<close>

datatype connect_outcome =
    Connected win   \<comment> \<open>\<open>exists\<close> returned true\<close>
  | NoWindow        \<comment> \<open>no exception, \<open>exists\<close> returned false\<close>
  | Failed          \<comment> \<open>an exception was raised\<close>

text \<open>A pywinauto rectangle: \<open>left\<close>, \<open>top\<close>, \<open>width()\<close>, \<open>height()\<close>.\<close>

record wrect =
  wr_left :: int
  wr_top :: int
  wr_width :: int
  wr_height :: int

text \<open>The dict \<open>{"x": .., "y": .., "w": .., "h": ..}\<close> of a result.\<close>

record rect =
  rect_x :: int
  rect_y :: int
  rect_w :: int
  rect_h :: int

text \<open>The keyword arguments of \<open>window.child_window(...)\<close>.\<close>

datatype name_criterion = Title string | TitleRe string | AutoId string

record elem_info =
  ei_element :: elem
  ei_text :: string
  ei_control_type :: string
  ei_rect :: wrect

datatype lookup =
    Exists elem_info
  | Missing          \<comment> \<open>\<open>exists\<close> returned false\<close>
  | NotFoundError    \<comment> \<open>ElementNotFoundError or ElementAmbiguousError\<close>
  | OtherError       \<comment> \<open>any other exception\<close>

text \<open>One row of \<open>pytesseract.image_to_data\<close>.\<close>

record ocr_row =
  o_text :: string
  o_conf :: int
  o_left :: int
  o_top :: int
  o_width :: int
  o_height :: int

text \<open>A screenshot of a region followed by text recognition; \<open>shot_width\<close> is the width of
  the captured image before any resampling.\<close>

record capture =
  shot_width :: int
  rows :: "ocr_row list"

datatype click_kind = Single | Double | Right

datatype action =
    Click int int click_kind   \<comment> \<open>pyautogui.click / doubleClick / rightClick\<close>
  | Write string               \<comment> \<open>pyautogui.write\<close>
  | Paste string               \<comment> \<open>the clipboard paste of \<open>_type_via_clipboard\<close>\<close>
  | Press string               \<comment> \<open>pyautogui.press\<close>

record focus_info =
  fi_title :: string
  fi_control_type :: string

record exn =
  exn_class :: string
  exn_message :: string

record 'os env =
  tesseract_available :: bool
  e_time :: "'os \<Rightarrow> rat"
  e_sleep :: "rat \<Rightarrow> 'os \<Rightarrow> 'os"
  e_ratio :: "string \<Rightarrow> string \<Rightarrow> rat"
  e_windows :: "'os \<Rightarrow> (exn + win_info list) \<times> 'os"
  e_connect_handle :: "nat \<Rightarrow> 'os \<Rightarrow> connect_outcome \<times> 'os"
  e_connect_title :: "string \<Rightarrow> 'os \<Rightarrow> win option \<times> 'os"
  e_process_scan :: "string list \<Rightarrow> 'os \<Rightarrow> win option \<times> 'os"
  e_window_meta :: "win \<Rightarrow> 'os \<Rightarrow> (nat \<times> string \<times> nat) option"
  e_focus :: "win \<Rightarrow> 'os \<Rightarrow> 'os"
  e_rectangle :: "win \<Rightarrow> 'os \<Rightarrow> exn + wrect"
  e_child_window :: "win \<Rightarrow> name_criterion \<Rightarrow> string option \<Rightarrow> 'os \<Rightarrow> lookup \<times> 'os"
  e_ocr :: "bool \<Rightarrow> int \<times> int \<times> int \<times> int \<Rightarrow> 'os \<Rightarrow> (exn + capture) \<times> 'os"
  e_descale :: "int \<Rightarrow> int \<Rightarrow> int"
  e_dpi_scaled :: "win \<Rightarrow> 'os \<Rightarrow> int \<Rightarrow> int"
  e_focused :: "'os \<Rightarrow> focus_info option"
  e_inject :: "action \<Rightarrow> 'os \<Rightarrow> exn option \<times> 'os"
  e_click_input :: "elem \<Rightarrow> 'os \<Rightarrow> bool \<times> 'os"
  e_screenshot :: "int \<times> int \<times> int \<times> int \<Rightarrow> 'os \<Rightarrow> (exn + int \<times> int) \<times> 'os"
  e_draw_rectangle :: "int \<times> int \<times> int \<times> int \<Rightarrow> exn option"
  e_window_text :: "win \<Rightarrow> 'os \<Rightarrow> exn + string"
  e_format_exc :: "exn \<Rightarrow> string"

text \<open>
  \<^item> \<open>tesseract_available\<close> is the module flag \<open>TESSERACT_AVAILABLE\<close>, set once at import.
  \<^item> \<open>e_time\<close> is \<open>time.time()\<close>, in seconds; \<open>e_sleep\<close> is \<open>time.sleep\<close>.
  \<^item> \<open>e_ratio a b\<close> is \<open>SequenceMatcher(None, a, b).ratio()\<close>.
  \<^item> \<open>e_windows\<close> enumerates the top-level windows (\<open>Inl\<close>: the enumeration raised).
  \<^item> \<open>e_connect_handle\<close> connects by window handle; \<open>e_connect_title\<close> is the connect by a
    case-insensitive title pattern of \<open>find_window\<close>, with every failure caught;
    \<open>e_process_scan\<close> is its scan of the process list for the given name fragments.
  \<^item> \<open>e_window_meta\<close> reads handle, title and process id of a window (\<open>None\<close>: it raised).
  \<^item> \<open>e_rectangle\<close> is \<open>window.rectangle()\<close>.
  \<^item> \<open>e_child_window window name control_type\<close> is \<open>window.child_window(...)\<close> followed by
    \<open>exists\<close> and the reads of the element found.
  \<^item> \<open>e_ocr scaled region\<close> captures the region and recognises its text; with \<open>scaled\<close>
    an image wider than 1280 is resampled to width 1280 first.
  \<^item> \<open>e_descale ww v\<close> is \<open>int(v / scale_factor)\<close> for \<open>scale_factor = 1280 / ww\<close>, and
    \<open>e_dpi_scaled window s v\<close> is \<open>int(v * _get_dpi_scale(window))\<close>; Python computes both
    in binary floating point.
  \<^item> \<open>e_focused\<close> is \<open>_get_focused_info()\<close> (\<open>None\<close>: the empty dict).
  \<^item> \<open>e_inject\<close> sends mouse or keyboard input through pyautogui. The module sets
    \<open>pyautogui.FAILSAFE = True\<close>, so every such call can raise (\<open>Some e\<close>: it raised \<open>e\<close>, for
    instance \<open>FailSafeException\<close> when the pointer is in a screen corner).
  \<^item> \<open>e_click_input\<close> clicks an accessibility element (\<open>False\<close>: it raised).
  \<^item> \<open>e_screenshot region\<close> is \<open>pyautogui.screenshot(region=...)\<close> of \<open>_read_state_visual\<close>,
    with the imports before it; it gives the width and height of the image.
  \<^item> \<open>e_draw_rectangle (x0, y0, x1, y1)\<close> is \<open>ImageDraw.rectangle\<close> on that box
    (\<open>Some e\<close>: it raised \<open>e\<close>, as Pillow does for a box with \<open>x1 < x0\<close> or \<open>y1 < y0\<close>).
  \<^item> \<open>e_window_text\<close> is \<open>window.window_text()\<close>.
  \<^item> \<open>e_format_exc\<close> is \<open>traceback.format_exc()\<close> for the exception being handled.
\<close>

section \<open>Session state\<close>

record cache_entry =
  ce_handle :: nat
  ce_title :: string
  ce_pid :: nat
  ce_last_seen :: rat

record som_element =
  som_id :: int
  som_text :: string
  som_type :: string
  som_rect :: rect

text \<open>The module globals \<open>_window_cache\<close> (a dict, in insertion order) and
  \<open>_last_som_elements\<close>, next to the outside world.\<close>

record 'os state =
  os :: 'os
  window_cache :: "(string \<times> cache_entry) list"
  last_som_elements :: "som_element list"

section \<open>Window resolution\<close>

subsection \<open>Scoring a title\<close>

text \<open>The loop of \<open>_title_matches\<close> that counts the words of the name with a fuzzy match.\<close>

fun matched_words :: "(string \<Rightarrow> string \<Rightarrow> rat) \<Rightarrow> string list \<Rightarrow> string list \<Rightarrow> nat" where
  "matched_words ratio title_words [] = 0"
| "matched_words ratio title_words (aw # aws) =
     (if list_ex (\<lambda>tw. ratio aw tw > 7 / 10) title_words then 1 else 0)
       + matched_words ratio title_words aws"

definition title_matches ::
  "(string \<Rightarrow> string \<Rightarrow> rat) \<Rightarrow> string \<Rightarrow> string list \<Rightarrow> string \<Rightarrow> nat" where
  "title_matches ratio app_lower app_words title_lower =
     (if str_strip title_lower = [] then 0
      else if str_in app_lower title_lower then 4
      else if app_words \<noteq> [] \<and> list_all (\<lambda>w. str_in w title_lower) app_words then 3
      else
        let title_words = str_split title_lower
        in if app_words \<noteq> []
              \<and> list_ex (\<lambda>tw. tw = hd app_words \<or> prefix (hd app_words) tw) title_words
           then 2
           else if app_words \<noteq> [] \<and> 2 \<le> length app_words
           then (if matched_words ratio title_words app_words = length app_words then 1 else 0)
           else if app_words \<noteq> [] \<and> length app_words = 1
           then (if list_ex (\<lambda>tw. ratio (hd app_words) tw > 85 / 100) title_words then 1 else 0)
           else 0)"

definition significant_words :: "string \<Rightarrow> string list" where
  "significant_words app_lower = filter (\<lambda>w. 1 < length w) (str_split app_lower)"

subsection \<open>The title scan\<close>

text \<open>The scan keeps the best score, the title that had it and its window handle.\<close>

fun scan_titles ::
  "(string \<Rightarrow> string \<Rightarrow> rat) \<Rightarrow> string \<Rightarrow> string list \<Rightarrow> win_info list
     \<Rightarrow> nat \<times> string option \<times> nat option \<Rightarrow> nat \<times> string option \<times> nat option" where
  "scan_titles ratio app_lower app_words [] best = best"
| "scan_titles ratio app_lower app_words (wi # wis) (best_score, best_match, best_handle) =
     (case wi_title wi of
        None \<Rightarrow> scan_titles ratio app_lower app_words wis (best_score, best_match, best_handle)
      | Some title \<Rightarrow>
          if title = [] \<or> str_strip title = []
          then scan_titles ratio app_lower app_words wis (best_score, best_match, best_handle)
          else
            let score = title_matches ratio app_lower app_words (str_lower title)
            in if score > best_score
               then scan_titles ratio app_lower app_words wis
                      (score, Some title, Some (wi_handle wi))
               else scan_titles ratio app_lower app_words wis
                      (best_score, best_match, best_handle))"

definition connect_by_handle :: "'os env \<Rightarrow> nat \<Rightarrow> 'os \<Rightarrow> win option \<times> 'os" where
  "connect_by_handle env handle s =
     (case e_connect_handle env handle s of
        (Connected dlg, s') \<Rightarrow> (Some dlg, s')
      | (NoWindow, s') \<Rightarrow> (None, s')
      | (Failed, s') \<Rightarrow> (None, s'))"

text \<open>Python's truth value of \<open>best_handle\<close>: \<open>None\<close> and 0 are false.\<close>

definition handle_truthy :: "nat option \<Rightarrow> bool" where
  "handle_truthy handle = (case handle of None \<Rightarrow> False | Some n \<Rightarrow> n \<noteq> 0)"

definition title_scan ::
  "'os env \<Rightarrow> string \<Rightarrow> string list \<Rightarrow> 'os \<Rightarrow> win option \<times> 'os" where
  "title_scan env app_lower app_words s =
     (case e_windows env s of (wins, s1) \<Rightarrow>
        (case scan_titles (e_ratio env) app_lower app_words
                (case wins of Inl e \<Rightarrow> [] | Inr ws \<Rightarrow> ws) (0, None, None) of
           (best_score, best_match, best_handle) \<Rightarrow>
             if handle_truthy best_handle \<and> 2 \<le> best_score
             then connect_by_handle env (the best_handle) s1
             else (None, s1)))"

subsection \<open>The session cache\<close>

definition cache_window :: "'os env \<Rightarrow> string \<Rightarrow> win \<Rightarrow> 'os state \<Rightarrow> 'os state" where
  "cache_window env app_name window st =
     (case e_window_meta env window (os st) of
        None \<Rightarrow> st
      | Some (handle, title, pid) \<Rightarrow>
          st\<lparr>window_cache :=
               AList.update (str_lower app_name)
                 \<lparr>ce_handle = handle, ce_title = title, ce_pid = pid,
                  ce_last_seen = e_time env (os st)\<rparr>
                 (window_cache st)\<rparr>)"

definition get_cached_window ::
  "'os env \<Rightarrow> string \<Rightarrow> 'os state \<Rightarrow> win option \<times> 'os state" where
  "get_cached_window env app_name st =
     (let key = str_lower app_name
      in case map_of (window_cache st) key of
           None \<Rightarrow> (None, st)
         | Some cached \<Rightarrow>
             if e_time env (os st) - ce_last_seen cached > 60
             then (None, st\<lparr>window_cache := AList.delete key (window_cache st)\<rparr>)
             else
               (case e_connect_handle env (ce_handle cached) (os st) of
                  (Connected dlg, s') \<Rightarrow>
                    (Some dlg,
                     st\<lparr>os := s',
                        window_cache :=
                          AList.update key (cached\<lparr>ce_last_seen := e_time env s'\<rparr>)
                            (window_cache st)\<rparr>)
                | (NoWindow, s') \<Rightarrow> (None, st\<lparr>os := s'\<rparr>)
                | (Failed, s') \<Rightarrow>
                    (None, st\<lparr>os := s', window_cache := AList.delete key (window_cache st)\<rparr>)))"

subsection \<open>\<open>find_window\<close>\<close>

definition find_window :: "'os env \<Rightarrow> string \<Rightarrow> 'os state \<Rightarrow> win option \<times> 'os state" where
  "find_window env app_name st =
     (let app_lower = str_strip (str_lower app_name);
          app_words = significant_words app_lower
      in if app_lower = [] then (None, st)
         else
           (case get_cached_window env app_name st of
              (Some cached, st1) \<Rightarrow> (Some cached, st1)
            | (None, st1) \<Rightarrow>
                (case title_scan env app_lower app_words (os st1) of
                   (Some result, s2) \<Rightarrow> (Some result, st1\<lparr>os := s2\<rparr>)
                 | (None, s2) \<Rightarrow>
                     (case e_connect_title env app_name s2 of
                        (Some dlg, s3) \<Rightarrow> (Some dlg, st1\<lparr>os := s3\<rparr>)
                      | (None, s3) \<Rightarrow>
                          (case (if app_words \<noteq> [] then e_connect_title env (hd app_words) s3
                                 else (None, s3)) of
                             (Some dlg, s4) \<Rightarrow> (Some dlg, st1\<lparr>os := s4\<rparr>)
                           | (None, s4) \<Rightarrow>
                               (case e_process_scan env
                                       ([filter (\<lambda>c. c \<noteq> CHR '' '') app_lower]
                                          @ (if app_words \<noteq> [] then [hd app_words] else [])
                                          @ [map (\<lambda>c. if c = CHR '' '' then CHR ''_'' else c)
                                               app_lower])
                                       s4 of
                                  (r, s5) \<Rightarrow> (r, st1\<lparr>os := s5\<rparr>)))))))"

definition focus_window :: "'os env \<Rightarrow> win \<Rightarrow> 'os state \<Rightarrow> 'os state" where
  "focus_window env window st = st\<lparr>os := e_focus env window (os st)\<rparr>"


section \<open>The locator cascade\<close>

subsection \<open>Results\<close>

text \<open>One entry of the \<open>ocr_dump\<close> list.\<close>

record dump_item =
  d_index :: nat
  d_text :: string
  d_rect :: rect

text \<open>The result dict of a tier; a key that a result does not carry is \<open>None\<close>.\<close>

record find_result =
  found :: bool
  fr_method :: string
  fr_error :: "string option"
  fr_text :: "string option"
  fr_control_type :: "string option"
  fr_confidence :: "int option"
  fr_fuzzy_score :: "rat option"
  fr_rect :: "rect option"
  fr_center :: "(int \<times> int) option"
  fr_region_hint :: "string option"
  fr_element :: "elem option"
  fr_ocr_dump :: "dump_item list option"
  fr_ocr_item_count :: "nat option"
  fr_needs_llm :: "bool option"
  fr_tesseract_available :: "bool option"
  fr_install_hint :: "string option"

definition plain_result :: "bool \<Rightarrow> string \<Rightarrow> find_result" where
  "plain_result f m =
     \<lparr>found = f, fr_method = m, fr_error = None, fr_text = None, fr_control_type = None,
      fr_confidence = None, fr_fuzzy_score = None, fr_rect = None, fr_center = None,
      fr_region_hint = None, fr_element = None, fr_ocr_dump = None,
      fr_ocr_item_count = None, fr_needs_llm = None, fr_tesseract_available = None,
      fr_install_hint = None\<rparr>"

definition center_of :: "rect \<Rightarrow> int \<times> int" where
  "center_of r = (rect_x r + rect_w r div 2, rect_y r + rect_h r div 2)"

text \<open>Decimal digits of a number, as \<open>str\<close> prints it inside an f-string.\<close>

function str_nat :: "nat \<Rightarrow> string" where
  "str_nat n =
     (if n < 10 then [char_of (48 + n)] else str_nat (n div 10) @ [char_of (48 + n mod 10)])"
  by pat_completeness auto
termination
  by (relation "measure (\<lambda>n. n)") auto

definition str_int :: "int \<Rightarrow> string" where
  "str_int i = (if i < 0 then CHR ''-'' # str_nat (nat (- i)) else str_nat (nat i))"

subsection \<open>Tier 1: the accessibility tree\<close>

definition type_map :: "(string \<times> string) list" where
  "type_map =
     [(''button'', ''Button''), (''link'', ''Hyperlink''), (''input'', ''Edit''),
      (''text'', ''Text''), (''tab'', ''TabItem''), (''menu_item'', ''MenuItem''),
      (''checkbox'', ''CheckBox''), (''radio'', ''RadioButton''),
      (''list_item'', ''ListItem''), (''tree_item'', ''TreeItem'')]"

definition accessibility_match :: "string \<Rightarrow> elem_info \<Rightarrow> find_result" where
  "accessibility_match m ei =
     (let r = ei_rect ei
      in (plain_result True m)
           \<lparr>fr_text := Some (ei_text ei),
            fr_control_type := Some (ei_control_type ei),
            fr_rect := Some \<lparr>rect_x = wr_left r, rect_y = wr_top r,
                             rect_w = wr_width r, rect_h = wr_height r\<rparr>,
            fr_center := Some (wr_left r + wr_width r div 2, wr_top r + wr_height r div 2),
            fr_element := Some (ei_element ei)\<rparr>)"

definition locate_via_accessibility ::
  "'os env \<Rightarrow> win \<Rightarrow> string \<Rightarrow> string \<Rightarrow> string \<Rightarrow> 'os \<Rightarrow> find_result option \<times> 'os" where
  "locate_via_accessibility env window element_text element_type location_hint s =
     (let control_type = (if element_type \<noteq> [] then map_of type_map element_type else None)
      in case e_child_window env window (Title element_text) control_type s of
           (Exists ei, s1) \<Rightarrow> (Some (accessibility_match ''accessibility_exact'' ei), s1)
         | (OtherError, s1) \<Rightarrow> (None, s1)
         | (_, s1) \<Rightarrow>
             (case e_child_window env window (TitleRe element_text) control_type s1 of
                (Exists ei, s2) \<Rightarrow> (Some (accessibility_match ''accessibility_partial'' ei), s2)
              | (OtherError, s2) \<Rightarrow> (None, s2)
              | (_, s2) \<Rightarrow>
                  (case e_child_window env window (AutoId element_text) control_type s2 of
                     (Exists ei, s3) \<Rightarrow>
                       (Some (accessibility_match ''accessibility_auto_id'' ei), s3)
                   | (_, s3) \<Rightarrow> (None, s3))))"

subsection \<open>Fuzzy matching\<close>

record ocr_item =
  it_text :: string
  it_confidence :: int
  it_rect :: rect
  it_index :: "nat option"

definition fuzzy_score :: "(string \<Rightarrow> string \<Rightarrow> rat) \<Rightarrow> string \<Rightarrow> string \<Rightarrow> rat" where
  "fuzzy_score ratio needle haystack =
     (if needle = [] \<or> haystack = [] then 0 else ratio (str_lower needle) (str_lower haystack))"

text \<open>The loop of \<open>best_fuzzy_match\<close>; \<open>best\<close> is the item kept so far, with its score.\<close>

fun best_fuzzy_loop ::
  "(string \<Rightarrow> string \<Rightarrow> rat) \<Rightarrow> string \<Rightarrow> ocr_item list \<Rightarrow> (ocr_item \<times> rat) option \<Rightarrow> rat
     \<Rightarrow> (ocr_item \<times> rat) option" where
  "best_fuzzy_loop ratio needle [] best best_score = best"
| "best_fuzzy_loop ratio needle (item # items) best best_score =
     (let text = str_strip (it_text item)
      in if text = [] then best_fuzzy_loop ratio needle items best best_score
         else
           let score = fuzzy_score ratio needle text
           in if score > best_score
              then best_fuzzy_loop ratio needle items (Some (item, score)) score
              else best_fuzzy_loop ratio needle items best best_score)"

definition best_fuzzy_match ::
  "(string \<Rightarrow> string \<Rightarrow> rat) \<Rightarrow> string \<Rightarrow> ocr_item list \<Rightarrow> rat \<Rightarrow> (ocr_item \<times> rat) option" where
  "best_fuzzy_match ratio needle ocr_items threshold =
     best_fuzzy_loop ratio needle ocr_items None threshold"

text \<open>The first item whose text contains the needle, both in lower case.\<close>

definition exact_match :: "string \<Rightarrow> ocr_item list \<Rightarrow> ocr_item option" where
  "exact_match element_text ocr_items =
     (let needle = str_lower element_text
      in find (\<lambda>item. needle = str_lower (it_text item)
                         \<or> str_in needle (str_lower (it_text item))) ocr_items)"

subsection \<open>Tier 2: OCR of a region\<close>

definition get_region_rect :: "wrect \<Rightarrow> string \<Rightarrow> int \<times> int \<times> int \<times> int" where
  "get_region_rect window_rect hint =
     (let left = wr_left window_rect; top = wr_top window_rect;
          w = wr_width window_rect; h = wr_height window_rect
      in if hint = ''menu_bar'' then (left, top, w, min 60 h)
         else if hint = ''top'' then (left, top, w, h div 3)
         else if hint = ''top_half'' then (left, top, w, h div 2)
         else if hint = ''bottom'' then (left, top + h - min 200 h, w, min 200 h)
         else if hint = ''bottom_half'' then (left, top + h div 2, w, h div 2)
         else if hint = ''sidebar'' then (left, top, min 250 w, h)
         else if hint = ''left'' then (left, top, w div 3, h)
         else if hint = ''right'' then (left + w * 2 div 3, top, w div 3, h)
         else if hint = ''center'' then (left + w div 4, top + h div 4, w div 2, h div 2)
         else if hint = ''top_left'' then (left, top, min 300 w, min 300 h)
         else if hint = ''top_right'' then (left + w - min 300 w, top, min 300 w, min 300 h)
         else (left, top, w, h))"

text \<open>The loop that builds \<open>ocr_items\<close> from the recognised rows, in screen coordinates.\<close>

fun region_items :: "int \<Rightarrow> int \<Rightarrow> ocr_row list \<Rightarrow> ocr_item list \<Rightarrow> ocr_item list" where
  "region_items rx ry [] ocr_items = ocr_items"
| "region_items rx ry (row # rest) ocr_items =
     (let text = str_strip (o_text row); conf = o_conf row
      in if text = [] \<or> conf < 30 then region_items rx ry rest ocr_items
         else region_items rx ry rest
                (ocr_items @
                 [\<lparr>it_text = text, it_confidence = conf,
                   it_rect = \<lparr>rect_x = rx + o_left row, rect_y = ry + o_top row,
                              rect_w = o_width row, rect_h = o_height row\<rparr>,
                   it_index = None\<rparr>]))"

definition region_hint_or_full :: "string \<Rightarrow> string" where
  "region_hint_or_full location_hint = (if location_hint \<noteq> [] then location_hint else ''full'')"

definition locate_via_ocr_region ::
  "'os env \<Rightarrow> win \<Rightarrow> string \<Rightarrow> string \<Rightarrow> 'os \<Rightarrow> find_result option \<times> 'os" where
  "locate_via_ocr_region env window element_text location_hint s =
     (if \<not> tesseract_available env then (None, s)
      else
        case e_rectangle env window s of
          Inl e \<Rightarrow> (None, s)
        | Inr rect \<Rightarrow>
            (case get_region_rect rect location_hint of
               (rx, ry, rw, rh) \<Rightarrow>
                 if rw \<le> 0 \<or> rh \<le> 0 then (None, s)
                 else
                   (case e_ocr env False (rx, ry, rw, rh) s of
                      (Inl e, s1) \<Rightarrow> (None, s1)
                    | (Inr cap, s1) \<Rightarrow>
                        let ocr_items = region_items rx ry (rows cap) []
                        in if ocr_items = [] then (None, s1)
                           else
                             (case exact_match element_text ocr_items of
                                Some item \<Rightarrow>
                                  (Some ((plain_result True ''ocr_region_exact'')
                                     \<lparr>fr_text := Some (it_text item),
                                      fr_confidence := Some (it_confidence item),
                                      fr_rect := Some (it_rect item),
                                      fr_center := Some (center_of (it_rect item)),
                                      fr_region_hint :=
                                        Some (region_hint_or_full location_hint)\<rparr>), s1)
                              | None \<Rightarrow>
                                  (case best_fuzzy_match (e_ratio env) element_text ocr_items
                                          (6 / 10) of
                                     Some (match, score) \<Rightarrow>
                                       (Some ((plain_result True ''ocr_region_fuzzy'')
                                          \<lparr>fr_text := Some (it_text match),
                                           fr_confidence := Some (it_confidence match),
                                           fr_fuzzy_score := Some score,
                                           fr_rect := Some (it_rect match),
                                           fr_center := Some (center_of (it_rect match)),
                                           fr_region_hint :=
                                             Some (region_hint_or_full location_hint)\<rparr>), s1)
                                   | None \<Rightarrow> (None, s1))))))"

subsection \<open>Tier 3: OCR of the whole window\<close>

text \<open>The loop that builds \<open>ocr_items\<close>; \<open>scaled\<close> says that \<open>scale_factor\<close> is not 1.\<close>

fun full_items ::
  "(int \<Rightarrow> int) \<Rightarrow> bool \<Rightarrow> int \<Rightarrow> int \<Rightarrow> ocr_row list \<Rightarrow> ocr_item list \<Rightarrow> ocr_item list" where
  "full_items descale scaled wx wy [] ocr_items = ocr_items"
| "full_items descale scaled wx wy (row # rest) ocr_items =
     (let text = str_strip (o_text row); conf = o_conf row
      in if text = [] \<or> conf < 20 then full_items descale scaled wx wy rest ocr_items
         else
           let r = (if scaled
                    then \<lparr>rect_x = wx + descale (o_left row), rect_y = wy + descale (o_top row),
                          rect_w = descale (o_width row), rect_h = descale (o_height row)\<rparr>
                    else \<lparr>rect_x = wx + o_left row, rect_y = wy + o_top row,
                          rect_w = o_width row, rect_h = o_height row\<rparr>)
           in full_items descale scaled wx wy rest
                (ocr_items @
                 [\<lparr>it_text = text, it_confidence = conf, it_rect = r,
                   it_index = Some (length ocr_items)\<rparr>]))"

definition ocr_dump_of :: "ocr_item list \<Rightarrow> dump_item list" where
  "ocr_dump_of ocr_items =
     map (\<lambda>it. \<lparr>d_index = the (it_index it), d_text = it_text it, d_rect = it_rect it\<rparr>)
       (take 50 ocr_items)"

definition tesseract_missing :: "string \<Rightarrow> find_result" where
  "tesseract_missing element_text =
     (plain_result False ''none'')
       \<lparr>fr_error := Some (''Element '' @ [CHR 0x27] @ element_text @ [CHR 0x27]
           @ '' not found via accessibility tree. ''
           @ ''Tesseract OCR is not installed, so Tier 2/3 OCR fallback is unavailable. ''
           @ ''To fix: use shell.powershell to run: ''
           @ ''choco install tesseract -y   OR   download from https://github.com/UB-Mannheim/tesseract/releases ''
           @ ''and install to C:'' @ [CHR 0x5C] @ ''Program Files'' @ [CHR 0x5C]
           @ ''Tesseract-OCR'' @ [CHR 0x5C]),
        fr_tesseract_available := Some False,
        fr_install_hint := Some ''shell.powershell: choco install tesseract -y''\<rparr>"

definition locate_via_full_scan ::
  "'os env \<Rightarrow> win \<Rightarrow> string \<Rightarrow> 'os \<Rightarrow> find_result \<times> 'os" where
  "locate_via_full_scan env window element_text s =
     (if \<not> tesseract_available env then (tesseract_missing element_text, s)
      else
        case e_rectangle env window s of
          Inl e \<Rightarrow>
            ((plain_result False ''ocr_full'')
               \<lparr>fr_error := Some (''Full OCR scan failed: '' @ exn_class e @ '': ''
                                    @ exn_message e)\<rparr>, s)
        | Inr rect \<Rightarrow>
            let wx = wr_left rect; wy = wr_top rect; ww = wr_width rect; wh = wr_height rect
            in if ww \<le> 0 \<or> wh \<le> 0
               then ((plain_result False ''ocr_full'')
                       \<lparr>fr_error := Some ''Window has zero size''\<rparr>, s)
               else
                 (case e_ocr env True (wx, wy, ww, wh) s of
                    (Inl e, s1) \<Rightarrow>
                      ((plain_result False ''ocr_full'')
                         \<lparr>fr_error := Some (''Full OCR scan failed: '' @ exn_class e @ '': ''
                                              @ exn_message e)\<rparr>, s1)
                  | (Inr cap, s1) \<Rightarrow>
                      let scaled = (shot_width cap > 1280 \<and> ww \<noteq> 1280);
                          ocr_items = full_items (e_descale env ww) scaled wx wy (rows cap) []
                      in if ocr_items = []
                         then ((plain_result False ''ocr_full'')
                                 \<lparr>fr_error := Some ''OCR found no text on the window''\<rparr>, s1)
                         else
                           (case exact_match element_text ocr_items of
                              Some item \<Rightarrow>
                                ((plain_result True ''ocr_full_exact'')
                                   \<lparr>fr_text := Some (it_text item),
                                    fr_confidence := Some (it_confidence item),
                                    fr_rect := Some (it_rect item),
                                    fr_center := Some (center_of (it_rect item))\<rparr>, s1)
                            | None \<Rightarrow>
                                (case best_fuzzy_match (e_ratio env) element_text ocr_items
                                        (55 / 100) of
                                   Some (match, score) \<Rightarrow>
                                     ((plain_result True ''ocr_full_fuzzy'')
                                        \<lparr>fr_text := Some (it_text match),
                                         fr_confidence := Some (it_confidence match),
                                         fr_fuzzy_score := Some score,
                                         fr_rect := Some (it_rect match),
                                         fr_center := Some (center_of (it_rect match))\<rparr>, s1)
                                 | None \<Rightarrow>
                                     ((plain_result False ''ocr_full_no_match'')
                                        \<lparr>fr_error := Some (''OCR found ''
                                            @ str_nat (length ocr_items)
                                            @ '' text items but none matched '' @ [CHR 0x27]
                                            @ element_text @ [CHR 0x27]),
                                         fr_ocr_dump := Some (ocr_dump_of ocr_items),
                                         fr_ocr_item_count := Some (length ocr_items),
                                         fr_needs_llm := Some True\<rparr>, s1)))))"

subsection \<open>The cascade\<close>

datatype tier_call = Tier1 | Tier2 string | Tier3

text \<open>The loop over the common regions. Next to the result it returns the calls it made,
  each with whether that call returned a match.\<close>

fun try_regions ::
  "'os env \<Rightarrow> win \<Rightarrow> string \<Rightarrow> string list \<Rightarrow> 'os
     \<Rightarrow> find_result option \<times> (tier_call \<times> bool) list \<times> 'os" where
  "try_regions env window element_text [] s = (None, [], s)"
| "try_regions env window element_text (hint # hints) s =
     (case locate_via_ocr_region env window element_text hint s of
        (Some result, s1) \<Rightarrow> (Some result, [(Tier2 hint, True)], s1)
      | (None, s1) \<Rightarrow>
          (case try_regions env window element_text hints s1 of
             (r, calls, s2) \<Rightarrow> (r, (Tier2 hint, False) # calls, s2)))"

text \<open>\<open>smart_find\<close>, returning with its result the list of tier calls it made, in order,
  each with whether the call returned a match.\<close>

definition smart_find_traced ::
  "'os env \<Rightarrow> win \<Rightarrow> string \<Rightarrow> string \<Rightarrow> string \<Rightarrow> 'os
     \<Rightarrow> find_result \<times> (tier_call \<times> bool) list \<times> 'os" where
  "smart_find_traced env window element_text element_type location_hint s =
     (case locate_via_accessibility env window element_text element_type location_hint s of
        (Some result, s1) \<Rightarrow> (result, [(Tier1, True)], s1)
      | (None, s1) \<Rightarrow>
          (case (if tesseract_available env
                 then (if location_hint \<noteq> []
                       then try_regions env window element_text [location_hint] s1
                       else try_regions env window element_text
                              [''menu_bar'', ''center'', ''sidebar''] s1)
                 else (None, [], s1)) of
             (Some result, calls, s2) \<Rightarrow> (result, (Tier1, False) # calls, s2)
           | (None, calls, s2) \<Rightarrow>
               (case locate_via_full_scan env window element_text s2 of
                  (result, s3) \<Rightarrow>
                    (result, (Tier1, False) # calls @ [(Tier3, found result)], s3))))"

definition smart_find ::
  "'os env \<Rightarrow> win \<Rightarrow> string \<Rightarrow> string \<Rightarrow> string \<Rightarrow> 'os \<Rightarrow> find_result \<times> 'os" where
  "smart_find env window element_text element_type location_hint s =
     (case smart_find_traced env window element_text element_type location_hint s of
        (result, calls, s') \<Rightarrow> (result, s'))"


section \<open>Tool handlers\<close>

subsection \<open>The visual snapshot of \<open>gui.read_state\<close>\<close>

text \<open>One element of \<open>list_elements\<close>; \<open>el_rect\<close> is \<open>None\<close> when the key is absent.\<close>

record ui_element =
  el_text :: string
  el_control_type :: string
  el_rect :: "rect option"

definition interactive_types :: "string list" where
  "interactive_types =
     [''button'', ''edit'', ''checkbox'', ''radiobutton'', ''combobox'', ''listitem'',
      ''menuitem'', ''tabitem'', ''link'', ''hyperlink'', ''slider'', ''spinner'',
      ''treeitem'']"

text \<open>
  The labelling loop of \<open>_read_state_visual\<close>. \<open>draw\<close> is \<open>ImageDraw.rectangle\<close>, \<open>scale v\<close> is
  \<open>int(v * dpi_scale)\<close>, \<open>rect\<close> the window rectangle, \<open>sw\<close> and \<open>sh\<close> the size of the
  screenshot, \<open>counter\<close> the running variable \<open>som_id\<close> and \<open>som_elements\<close> the manifest built
  so far. The loop draws the badge and then the outline of each element it labels; a
  drawing call that raises ends the loop with the exception (\<open>Inl\<close>).
\<close>

fun som_loop ::
  "(int \<times> int \<times> int \<times> int \<Rightarrow> exn option) \<Rightarrow> (int \<Rightarrow> int) \<Rightarrow> wrect \<Rightarrow> int \<Rightarrow> int
     \<Rightarrow> ui_element list \<Rightarrow> int \<Rightarrow> som_element list \<Rightarrow> exn + som_element list" where
  "som_loop draw scale rect sw sh [] counter som_elements = Inr som_elements"
| "som_loop draw scale rect sw sh (el # els) counter som_elements =
     (case el_rect el of
        None \<Rightarrow> som_loop draw scale rect sw sh els counter som_elements
      | Some er \<Rightarrow>
          let el_type = str_lower (el_control_type el)
          in if el_type \<notin> set interactive_types \<and> el_text el = []
             then som_loop draw scale rect sw sh els counter som_elements
             else
               let counter = counter + 1;
                   ex = scale (rect_x er - wr_left rect);
                   ey = scale (rect_y er - wr_top rect);
                   ew = scale (rect_w er);
                   eh = scale (rect_h er)
               in if ex < 0 \<or> ey < 0 \<or> ex > sw \<or> ey > sh
                  then som_loop draw scale rect sw sh els counter som_elements
                  else
                    let badge_w = max 16 (int (length (str_int counter)) * 8 + 6);
                        badge_h = 14;
                        badge_x = max 0 (min ex (sw - badge_w));
                        badge_y = max 0 (min (ey - badge_h) (sh - badge_h))
                    in case draw (badge_x, badge_y, badge_x + badge_w, badge_y + badge_h) of
                         Some e \<Rightarrow> Inl e
                       | None \<Rightarrow>
                           (case draw (ex, ey, min (ex + ew) (sw - 1), min (ey + eh) (sh - 1)) of
                              Some e \<Rightarrow> Inl e
                            | None \<Rightarrow>
                                let som_elements =
                                      som_elements @
                                      [\<lparr>som_id = counter, som_text = take 80 (el_text el),
                                        som_type = el_type, som_rect = er\<rparr>]
                                in if counter \<ge> 50 then Inr som_elements
                                   else som_loop draw scale rect sw sh els counter
                                          som_elements))"

record visual_state =
  vs_app_name :: string
  vs_window_title :: string
  vs_som_elements :: "som_element list"
  vs_som_count :: nat

text \<open>
  \<open>_read_state_visual\<close>: the manifest is returned and stored in \<open>_last_som_elements\<close>.
  The window rectangle, the screenshot, a drawing call and the read of the window title
  can each raise; the exception leaves the function and nothing is stored. The encoded
  image and the fields that describe it are left out.
\<close>

definition read_state_visual ::
  "'os env \<Rightarrow> win \<Rightarrow> string \<Rightarrow> ui_element list \<Rightarrow> 'os state \<Rightarrow> (exn + visual_state) \<times> 'os state"
  where
  "read_state_visual env window app_name elements st =
     (case e_rectangle env window (os st) of
        Inl e \<Rightarrow> (Inl e, st)
      | Inr rect \<Rightarrow>
          let scale = e_dpi_scaled env window (os st)
          in case e_screenshot env
                    (scale (wr_left rect), scale (wr_top rect), scale (wr_width rect),
                     scale (wr_height rect)) (os st) of
               (Inl e, s1) \<Rightarrow> (Inl e, st\<lparr>os := s1\<rparr>)
             | (Inr (sw, sh), s1) \<Rightarrow>
                 (case som_loop (e_draw_rectangle env) scale rect sw sh elements 0 [] of
                    Inl e \<Rightarrow> (Inl e, st\<lparr>os := s1\<rparr>)
                  | Inr som_elements \<Rightarrow>
                      (case e_window_text env window s1 of
                         Inl e \<Rightarrow> (Inl e, st\<lparr>os := s1\<rparr>)
                       | Inr title \<Rightarrow>
                           (Inr \<lparr>vs_app_name = app_name,
                                 vs_window_title = title,
                                 vs_som_elements = som_elements,
                                 vs_som_count = length som_elements\<rparr>,
                            st\<lparr>os := s1, last_som_elements := som_elements\<rparr>))))"

subsection \<open>Unexpected dialogs\<close>

definition dialog_keywords :: "string list" where
  "dialog_keywords =
     [''do you want'', ''are you sure'', ''not responding'', ''has stopped'',
      ''save changes'', ''save as'', ''confirm'', ''permission'']"

text \<open>The scan of \<open>_check_for_dialog\<close>: the title of the first window flagged.\<close>

fun dialog_scan :: "string \<Rightarrow> win_info list \<Rightarrow> string option" where
  "dialog_scan app_name [] = None"
| "dialog_scan app_name (wi # wis) =
     (case wi_title wi of
        None \<Rightarrow> dialog_scan app_name wis
      | Some title \<Rightarrow>
          if title = [] then dialog_scan app_name wis
          else
            let title_lower = str_lower title
            in if app_name \<noteq> [] \<and> str_in (str_lower app_name) title_lower
               then dialog_scan app_name wis
               else if (case wi_size wi of
                          None \<Rightarrow> False
                        | Some (rw, rh) \<Rightarrow> rw > 800 \<or> rh > 600)
               then dialog_scan app_name wis
               else if list_ex (\<lambda>keyword. str_in keyword title_lower) dialog_keywords
               then Some title
               else dialog_scan app_name wis)"

definition check_for_dialog :: "'os env \<Rightarrow> string \<Rightarrow> 'os \<Rightarrow> string option \<times> 'os" where
  "check_for_dialog env app_name s =
     (case e_windows env s of
        (Inl e, s1) \<Rightarrow> (None, s1)
      | (Inr wis, s1) \<Rightarrow> (dialog_scan app_name wis, s1))"

subsection \<open>\<open>gui.click\<close>\<close>

record click_args =
  ca_app_name :: string
  ca_element_text :: string
  ca_element_type :: string
  ca_coordinates :: "(int \<times> int) option"
  ca_click_type :: string
  ca_location_hint :: string
  ca_som_id :: "int option"

text \<open>The result dict of \<open>handle_click\<close>; \<open>cr_dialog\<close> is the title of a detected
  dialog (the keys \<open>dialog_detected\<close>, \<open>dialog_title\<close> and \<open>hint\<close>).\<close>

record click_result =
  clicked :: bool
  cr_method :: "string option"
  cr_som_id :: "int option"
  cr_text :: "string option"
  cr_x :: "int option"
  cr_y :: "int option"
  cr_rect :: "rect option"
  cr_state_changed :: "bool option"
  cr_error :: "string option"
  cr_dialog :: "string option"

definition click_failed :: "string \<Rightarrow> click_result" where
  "click_failed msg =
     \<lparr>clicked = False, cr_method = None, cr_som_id = None, cr_text = None, cr_x = None,
      cr_y = None, cr_rect = None, cr_state_changed = None, cr_error = Some msg,
      cr_dialog = None\<rparr>"

definition click_done :: "string \<Rightarrow> click_result" where
  "click_done m =
     \<lparr>clicked = True, cr_method = Some m, cr_som_id = None, cr_text = None, cr_x = None,
      cr_y = None, cr_rect = None, cr_state_changed = None, cr_error = None,
      cr_dialog = None\<rparr>"

text \<open>\<open>_do_click\<close>; the pyautogui call can raise.\<close>

definition do_click :: "'os env \<Rightarrow> int \<Rightarrow> int \<Rightarrow> string \<Rightarrow> 'os \<Rightarrow> exn option \<times> 'os" where
  "do_click env cx cy click_type s =
     (if click_type = ''double'' then e_inject env (Click cx cy Double) s
      else if click_type = ''right'' then e_inject env (Click cx cy Right) s
      else e_inject env (Click cx cy Single) s)"

text \<open>The branch of \<open>handle_click\<close> for a request that carries \<open>som_id\<close>, here already an
  integer. An exception of \<open>_do_click\<close> leaves the handler (\<open>Inl\<close>).\<close>

definition click_som ::
  "'os env \<Rightarrow> click_args \<Rightarrow> int \<Rightarrow> 'os state \<Rightarrow> (exn + click_result) \<times> 'os state" where
  "click_som env args sid st =
     (case find (\<lambda>sel. som_id sel = sid) (last_som_elements st) of
        Some sel \<Rightarrow>
          let el_rect = som_rect sel;
              cx = rect_x el_rect + rect_w el_rect div 2;
              cy = rect_y el_rect + rect_h el_rect div 2;
              pre_state = e_focused env (os st)
          in (case do_click env cx cy (ca_click_type args) (os st) of
                (Some e, s1) \<Rightarrow> (Inl e, st\<lparr>os := s1\<rparr>)
              | (None, s1) \<Rightarrow>
                  let s2 = e_sleep env (15 / 100) s1;
                      post_state = e_focused env s2;
                      click_result =
                        (click_done ''som_id'')
                          \<lparr>cr_som_id := Some sid, cr_text := Some (som_text sel),
                           cr_x := Some cx, cr_y := Some cy,
                           cr_state_changed := Some (pre_state \<noteq> post_state)\<rparr>
                  in (case check_for_dialog env (ca_app_name args) s2 of
                        (dialog, s3) \<Rightarrow>
                          (Inr (click_result\<lparr>cr_dialog := dialog\<rparr>), st\<lparr>os := s3\<rparr>)))
      | None \<Rightarrow>
          (Inr (click_failed (''SoM ID '' @ str_int sid
                                @ '' not found. Run gui.read_state(mode='' @ [CHR 0x27]
                                @ ''visual'' @ [CHR 0x27] @ '') first.'')), st))"

text \<open>The rest of \<open>handle_click\<close>, after the element has been found.\<close>

definition click_found ::
  "'os env \<Rightarrow> click_args \<Rightarrow> find_result \<Rightarrow> 'os state \<Rightarrow> (exn + click_result) \<times> 'os state"
  where
  "click_found env args result st =
     (let pre_state = e_focused env (os st);
          by_element =
            (case fr_element result of
               None \<Rightarrow> (None, os st)
             | Some element \<Rightarrow>
                 (case e_click_input env element (os st) of
                    (True, s1) \<Rightarrow>
                      (Some ((click_done (fr_method result))
                               \<lparr>cr_text := Some (case fr_text result of None \<Rightarrow> [] | Some t \<Rightarrow> t),
                                cr_rect := fr_rect result\<rparr>), s1)
                  | (False, s1) \<Rightarrow> (None, s1)));
          by_coords =
            (case by_element of
               (Some cr, s1) \<Rightarrow> (Inr (Some cr), s1)
             | (None, s1) \<Rightarrow>
                 (case fr_center result of
                    None \<Rightarrow> (Inr None, s1)
                  | Some (cx, cy) \<Rightarrow>
                      (case do_click env cx cy (ca_click_type args) s1 of
                         (Some e, s2) \<Rightarrow> (Inl e, s2)
                       | (None, s2) \<Rightarrow>
                           (Inr (Some ((click_done (fr_method result @ ''_coords''))
                                   \<lparr>cr_text := Some (case fr_text result of
                                                        None \<Rightarrow> [] | Some t \<Rightarrow> t),
                                    cr_x := Some cx, cr_y := Some cy\<rparr>)), s2))))
      in case by_coords of
           (Inl e, s2) \<Rightarrow> (Inl e, st\<lparr>os := s2\<rparr>)
         | (Inr None, s2) \<Rightarrow>
             (Inr (click_failed ''Found element but couldn't determine click coordinates''),
              st\<lparr>os := s2\<rparr>)
         | (Inr (Some cr), s2) \<Rightarrow>
             let s3 = e_sleep env (15 / 100) s2;
                 post_state = e_focused env s3
             in (case check_for_dialog env (ca_app_name args) s3 of
                   (dialog, s4) \<Rightarrow>
                     (Inr (cr\<lparr>cr_state_changed := Some (pre_state \<noteq> post_state),
                              cr_dialog := dialog\<rparr>), st\<lparr>os := s4\<rparr>)))"

definition handle_click ::
  "'os env \<Rightarrow> click_args \<Rightarrow> 'os state \<Rightarrow> (exn + click_result) \<times> 'os state" where
  "handle_click env args st =
     (case ca_som_id args of
        Some sid \<Rightarrow> click_som env args sid st
      | None \<Rightarrow>
          (case ca_coordinates args of
             Some (cx, cy) \<Rightarrow>
               (case do_click env cx cy (ca_click_type args) (os st) of
                  (Some e, s1) \<Rightarrow> (Inl e, st\<lparr>os := s1\<rparr>)
                | (None, s1) \<Rightarrow>
                    (Inr ((click_done ''coordinates'')\<lparr>cr_x := Some cx, cr_y := Some cy\<rparr>),
                     st\<lparr>os := s1\<rparr>))
           | None \<Rightarrow>
               if ca_element_text args = []
               then (Inr (click_failed ''element_text or coordinates required''), st)
               else if ca_app_name args = []
               then (Inr (click_failed ''No app_name specified and no window found''), st)
               else
                 (case find_window env (ca_app_name args) st of
                    (None, st1) \<Rightarrow>
                      (Inr (click_failed (''Window '' @ [CHR 0x27] @ ca_app_name args
                                            @ [CHR 0x27] @ '' not found'')), st1)
                  | (Some window, st1) \<Rightarrow>
                      let st2 = focus_window env window st1
                      in (case smart_find env window (ca_element_text args)
                                 (ca_element_type args) (ca_location_hint args) (os st2) of
                            (result, s3) \<Rightarrow>
                              if \<not> found result
                              then (Inr (click_failed
                                      (case fr_error result of
                                         None \<Rightarrow> ''Element not found'' | Some e \<Rightarrow> e)),
                                    st2\<lparr>os := s3\<rparr>)
                              else click_found env args result (st2\<lparr>os := s3\<rparr>)))))"

subsection \<open>\<open>gui.type_text\<close>\<close>

record type_args =
  ta_app_name :: string
  ta_text :: string
  ta_target_element :: string
  ta_press_enter :: bool

record type_result =
  typed :: bool
  tr_text_length :: "nat option"
  tr_press_enter :: "bool option"
  tr_error :: "string option"

text \<open>
  The block of \<open>handle_type_text\<close> that clicks the target element first. The click on the
  element and the pause after it are inside \<open>try\<close>; the click on the centre is in the
  \<open>except\<close> handler, so an exception of it leaves the handler (\<open>Some e\<close>).
\<close>

definition click_target ::
  "'os env \<Rightarrow> type_args \<Rightarrow> 'os state \<Rightarrow> exn option \<times> 'os state" where
  "click_target env args st =
     (if ta_target_element args \<noteq> [] \<and> ta_app_name args \<noteq> []
      then
        (case find_window env (ta_app_name args) st of
           (None, st1) \<Rightarrow> (None, st1)
         | (Some window, st1) \<Rightarrow>
             (case smart_find env window (ta_target_element args) [] [] (os st1) of
                (result, s2) \<Rightarrow>
                  if found result
                  then
                    (case fr_element result of
                       None \<Rightarrow> (None, st1\<lparr>os := s2\<rparr>)
                     | Some element \<Rightarrow>
                         (case e_click_input env element s2 of
                            (True, s3) \<Rightarrow> (None, st1\<lparr>os := e_sleep env (1 / 10) s3\<rparr>)
                          | (False, s3) \<Rightarrow>
                              (case fr_center result of
                                 None \<Rightarrow> (None, st1\<lparr>os := s3\<rparr>)
                               | Some (cx, cy) \<Rightarrow>
                                   (case e_inject env (Click cx cy Single) s3 of
                                      (Some e, s4) \<Rightarrow> (Some e, st1\<lparr>os := s4\<rparr>)
                                    | (None, s4) \<Rightarrow>
                                        (None, st1\<lparr>os := e_sleep env (1 / 10) s4\<rparr>)))))
                  else (None, st1\<lparr>os := s2\<rparr>)))
      else (None, st))"

text \<open>Typing: \<open>pyautogui.write\<close> for ASCII text, the clipboard otherwise, then Enter. None
  of these calls is inside \<open>try\<close>/\<open>except\<close>.\<close>

definition type_keys :: "'os env \<Rightarrow> type_args \<Rightarrow> 'os \<Rightarrow> exn option \<times> 'os" where
  "type_keys env args s =
     (case (if ta_text args \<noteq> []
            then (if list_all (\<lambda>c. (of_char c :: nat) < 128) (ta_text args)
                  then e_inject env (Write (ta_text args)) s
                  else e_inject env (Paste (ta_text args)) s)
            else (None, s)) of
        (Some e, s1) \<Rightarrow> (Some e, s1)
      | (None, s1) \<Rightarrow>
          if ta_press_enter args then e_inject env (Press ''enter'') s1 else (None, s1))"

definition handle_type_text ::
  "'os env \<Rightarrow> type_args \<Rightarrow> 'os state \<Rightarrow> (exn + type_result) \<times> 'os state" where
  "handle_type_text env args st =
     (case (if ta_app_name args \<noteq> []
            then (case find_window env (ta_app_name args) st of
                    (Some window, st1) \<Rightarrow> (True, focus_window env window st1)
                  | (None, st1) \<Rightarrow> (False, st1))
            else (True, st)) of
        (False, st1) \<Rightarrow>
          (Inr \<lparr>typed = False, tr_text_length = None, tr_press_enter = None,
                tr_error = Some (''Window '' @ [CHR 0x27] @ ta_app_name args @ [CHR 0x27]
                                  @ '' not found'')\<rparr>, st1)
      | (True, st1) \<Rightarrow>
          (case click_target env args st1 of
             (Some e, st2) \<Rightarrow> (Inl e, st2)
           | (None, st2) \<Rightarrow>
               (case type_keys env args (os st2) of
                  (Some e, s3) \<Rightarrow> (Inl e, st2\<lparr>os := s3\<rparr>)
                | (None, s3) \<Rightarrow>
                    (Inr \<lparr>typed = True, tr_text_length = Some (length (ta_text args)),
                          tr_press_enter = Some (ta_press_enter args), tr_error = None\<rparr>,
                     st2\<lparr>os := s3\<rparr>))))"

subsection \<open>\<open>gui.wait_for\<close>\<close>


record wait_result =
  waited :: bool
  wt_condition :: string
  wt_target :: string
  wt_error :: "string option"

datatype poll = Met | NotMet | Raised exn

text \<open>The scan of the windows for the target element, used by \<open>element_visible\<close> and
  \<open>element_gone\<close>; it stops at the first window that has the element.\<close>

fun element_scan :: "'os env \<Rightarrow> string \<Rightarrow> win_info list \<Rightarrow> 'os state \<Rightarrow> bool \<times> 'os state" where
  "element_scan env target [] st = (False, st)"
| "element_scan env target (wi # wis) st =
     (case wi_title wi of
        None \<Rightarrow> element_scan env target wis st
      | Some title \<Rightarrow>
          if title = [] \<or> str_strip title = [] then element_scan env target wis st
          else
            (case find_window env title st of
               (None, st1) \<Rightarrow> element_scan env target wis st1
             | (Some window, st1) \<Rightarrow>
                 (case locate_via_accessibility env window target [] [] (os st1) of
                    (Some result, s2) \<Rightarrow>
                      if found result then (True, st1\<lparr>os := s2\<rparr>)
                      else element_scan env target wis (st1\<lparr>os := s2\<rparr>)
                  | (None, s2) \<Rightarrow> element_scan env target wis (st1\<lparr>os := s2\<rparr>))))"

text \<open>One pass of the body of the polling loop, up to the sleep.\<close>

definition wait_check :: "'os env \<Rightarrow> string \<Rightarrow> string \<Rightarrow> 'os state \<Rightarrow> poll \<times> 'os state" where
  "wait_check env condition target st =
     (if condition = ''element_visible''
      then (case e_windows env (os st) of
              (Inl e, s1) \<Rightarrow> (Raised e, st\<lparr>os := s1\<rparr>)
            | (Inr wis, s1) \<Rightarrow>
                (case element_scan env target wis (st\<lparr>os := s1\<rparr>) of
                   (True, st2) \<Rightarrow> (Met, st2)
                 | (False, st2) \<Rightarrow> (NotMet, st2)))
      else if condition = ''window_exists''
      then (case find_window env target st of
              (Some window, st1) \<Rightarrow> (Met, st1)
            | (None, st1) \<Rightarrow> (NotMet, st1))
      else if condition = ''window_title_contains''
      then (case e_windows env (os st) of
              (Inl e, s1) \<Rightarrow> (Raised e, st\<lparr>os := s1\<rparr>)
            | (Inr wis, s1) \<Rightarrow>
                (if list_ex (\<lambda>wi. case wi_title wi of
                                     None \<Rightarrow> False
                                   | Some title \<Rightarrow> str_in (str_lower target) (str_lower title))
                      wis
                 then Met else NotMet, st\<lparr>os := s1\<rparr>))
      else if condition = ''element_gone''
      then (case e_windows env (os st) of
              (Inl e, s1) \<Rightarrow> (Raised e, st\<lparr>os := s1\<rparr>)
            | (Inr wis, s1) \<Rightarrow>
                (case element_scan env target wis (st\<lparr>os := s1\<rparr>) of
                   (True, st2) \<Rightarrow> (NotMet, st2)
                 | (False, st2) \<Rightarrow> (Met, st2)))
      else (NotMet, st))"

text \<open>
  The polling loop. It may run forever, so it returns an \<open>option\<close>: \<open>None\<close> is a loop
  that never returns. \<open>polls\<close> counts the passes made so far and is returned with the
  result; an exception of the window enumeration leaves the handler (\<open>Inl\<close>).
\<close>

partial_function (option) wait_loop ::
  "'os env \<Rightarrow> string \<Rightarrow> string \<Rightarrow> int \<Rightarrow> rat \<Rightarrow> rat \<Rightarrow> nat \<Rightarrow> 'os state
     \<Rightarrow> ((exn + wait_result) \<times> nat \<times> 'os state) option" where
  "wait_loop env condition target timeout_ms start timeout_s polls st =
     (if e_time env (os st) - start < timeout_s
      then
        (case wait_check env condition target st of
           (Raised e, st1) \<Rightarrow> Some (Inl e, Suc polls, st1)
         | (Met, st1) \<Rightarrow>
             Some (Inr \<lparr>waited = True, wt_condition = condition, wt_target = target,
                        wt_error = None\<rparr>, Suc polls, st1)
         | (NotMet, st1) \<Rightarrow>
             wait_loop env condition target timeout_ms start timeout_s (Suc polls)
               (st1\<lparr>os := e_sleep env (3 / 10) (os st1)\<rparr>))
      else
        Some (Inr \<lparr>waited = False, wt_condition = condition, wt_target = target,
                   wt_error = Some (''Timeout after '' @ str_int timeout_ms @ ''ms'')\<rparr>,
              polls, st))"

declare wait_loop.simps [code]


section \<open>The dispatcher and the daemon loop\<close>

datatype json =
    JNull | JBool bool | JNum int | JStr string | JArr "json list"
  | JObj "(string \<times> json) list"

text \<open>Python's truth value of a decoded JSON value.\<close>

fun truthy :: "json \<Rightarrow> bool" where
  "truthy JNull = False"
| "truthy (JBool b) = b"
| "truthy (JNum n) = (n \<noteq> 0)"
| "truthy (JStr s) = (s \<noteq> [])"
| "truthy (JArr xs) = (xs \<noteq> [])"
| "truthy (JObj kvs) = (kvs \<noteq> [])"

fun type_name :: "json \<Rightarrow> string" where
  "type_name JNull = ''NoneType''"
| "type_name (JBool b) = ''bool''"
| "type_name (JNum n) = ''int''"
| "type_name (JStr s) = ''str''"
| "type_name (JArr xs) = ''list''"
| "type_name (JObj kvs) = ''dict''"

definition no_attribute :: "json \<Rightarrow> string \<Rightarrow> exn" where
  "no_attribute v attr =
     \<lparr>exn_class = ''AttributeError'',
      exn_message = [CHR 0x27] @ type_name v @ [CHR 0x27] @ '' object has no attribute ''
                     @ [CHR 0x27] @ attr @ [CHR 0x27]\<rparr>"

text \<open>\<open>d.get(key, default)\<close>; on a value that is not a dict it raises.\<close>

definition dict_get :: "json \<Rightarrow> string \<Rightarrow> json \<Rightarrow> exn + json" where
  "dict_get d key dflt =
     (case d of
        JObj kvs \<Rightarrow> (case map_of kvs key of None \<Rightarrow> Inr dflt | Some v \<Rightarrow> Inr v)
      | _ \<Rightarrow> Inl (no_attribute d ''get''))"

type_synonym 'os handler = "json \<Rightarrow> 'os state \<Rightarrow> (exn + json) \<times> 'os state"

definition tool_names :: "string list" where
  "tool_names =
     [''gui.read_state'', ''gui.find_element'', ''gui.click'', ''gui.type_text'',
      ''gui.hotkey'', ''gui.wait_for'', ''gui.navigate'', ''gui.screenshot_region'']"

text \<open>The table \<open>TOOL_HANDLERS\<close>; \<open>impl\<close> gives the handler behind each tool name. A handler
  returns its result dict or raises, after whatever it did to the state.\<close>

definition TOOL_HANDLERS :: "(string \<Rightarrow> 'os handler) \<Rightarrow> string \<Rightarrow> 'os handler option" where
  "TOOL_HANDLERS impl tool_id = (if tool_id \<in> set tool_names then Some (impl tool_id) else None)"

text \<open>\<open>str(tool_id)\<close> inside an f-string, for the values that can be dict keys.\<close>

fun py_str :: "json \<Rightarrow> string" where
  "py_str JNull = ''None''"
| "py_str (JBool b) = (if b then ''True'' else ''False'')"
| "py_str (JNum n) = str_int n"
| "py_str (JStr s) = s"
| "py_str (JArr xs) = []"
| "py_str (JObj kvs) = []"

definition unhashable :: "string \<Rightarrow> exn" where
  "unhashable tn =
     \<lparr>exn_class = ''TypeError'',
      exn_message = ''unhashable type: '' @ [CHR 0x27] @ tn @ [CHR 0x27]\<rparr>"

text \<open>\<open>TOOL_HANDLERS.get(tool_id)\<close> for a decoded JSON value: a list or a dict is not
  hashable and the lookup raises.\<close>

definition lookup_handler ::
  "(string \<Rightarrow> 'os handler) \<Rightarrow> json \<Rightarrow> exn + 'os handler option" where
  "lookup_handler impl tool_id =
     (case tool_id of
        JArr xs \<Rightarrow> Inl (unhashable ''list'')
      | JObj kvs \<Rightarrow> Inl (unhashable ''dict'')
      | JStr name \<Rightarrow> Inr (TOOL_HANDLERS impl name)
      | _ \<Rightarrow> Inr None)"

definition error_result :: "'os env \<Rightarrow> json \<Rightarrow> exn \<Rightarrow> json" where
  "error_result env tool_id e =
     JObj [(''error'', JStr (''['' @ py_str tool_id @ ''] '' @ exn_class e @ '': ''
                              @ exn_message e)),
           (''traceback'', JStr (e_format_exc env e))]"

text \<open>The cache refresh of \<open>dispatch\<close> after a call that succeeded.\<close>

definition refresh_cache :: "'os env \<Rightarrow> string \<Rightarrow> 'os state \<Rightarrow> 'os state" where
  "refresh_cache env app_name st =
     (case get_cached_window env app_name st of
        (Some cached, st1) \<Rightarrow> st1
      | (None, st1) \<Rightarrow>
          (case find_window env app_name st1 of
             (Some window, st2) \<Rightarrow> cache_window env app_name window st2
           | (None, st2) \<Rightarrow> st2))"

text \<open>
  \<open>dispatch\<close>. The lookup of the handler is outside the \<open>try\<close>: when it raises, the
  exception leaves \<open>dispatch\<close> (\<open>Inl\<close>). Everything after it is inside the \<open>try\<close>, whose
  \<open>except Exception\<close> turns an exception into an error result.
\<close>

definition dispatch ::
  "'os env \<Rightarrow> (string \<Rightarrow> 'os handler) \<Rightarrow> json \<Rightarrow> json \<Rightarrow> 'os state
     \<Rightarrow> (exn + json) \<times> 'os state" where
  "dispatch env impl tool_id args st =
     (case lookup_handler impl tool_id of
        Inl e \<Rightarrow> (Inl e, st)
      | Inr None \<Rightarrow>
          (Inr (JObj [(''error'', JStr (''Unknown desktop tool: '' @ py_str tool_id))]), st)
      | Inr (Some handler) \<Rightarrow>
          (case handler args st of
             (Inl e, st1) \<Rightarrow> (Inr (error_result env tool_id e), st1)
           | (Inr result, st1) \<Rightarrow>
               (case dict_get args ''app_name'' (JStr []) of
                  Inl e \<Rightarrow> (Inr (error_result env tool_id e), st1)
                | Inr app_name \<Rightarrow>
                    if truthy app_name
                       \<and> (case result of
                             JObj kvs \<Rightarrow>
                               \<not> (case map_of kvs ''error'' of None \<Rightarrow> False | Some v \<Rightarrow> truthy v)
                           | _ \<Rightarrow> False)
                    then (case app_name of
                            JStr name \<Rightarrow> (Inr result, refresh_cache env name st1)
                          | _ \<Rightarrow>
                              (Inr (error_result env tool_id (no_attribute app_name ''lower'')),
                               st1))
                    else (Inr result, st1))))"

datatype daemon_end = EndOfInput | Quit | Crashed exn

text \<open>What \<open>json.loads\<close> does with a line: it returns the decoded value, raises
  \<open>JSONDecodeError\<close>, or raises another exception (\<open>RecursionError\<close> on deep nesting,
  \<open>ValueError\<close> on a number with too many digits).\<close>

datatype decoded = Decoded json | JSONDecodeError | LoadsRaised exn

definition cache_listing :: "(string \<times> cache_entry) list \<Rightarrow> json" where
  "cache_listing cache =
     JObj [(''windows'',
            JObj (map (\<lambda>(k, v). (k, JObj [(''title'', JStr (ce_title v)),
                                            (''pid'', JNum (int (ce_pid v)))])) cache))]"

text \<open>
  The loop of \<open>run_daemon\<close> over the lines of standard input; \<open>loads\<close> is \<open>json.loads\<close>. It
  returns the lines written, how the loop ended and the state. Only \<open>JSONDecodeError\<close> is
  caught around \<open>json.loads\<close>; any other exception of it, a message that is not an
  object, and an exception that leaves \<open>dispatch\<close> are outside every \<open>try\<close> and end the
  process.
\<close>

fun daemon_loop ::
  "'os env \<Rightarrow> (string \<Rightarrow> decoded) \<Rightarrow> (string \<Rightarrow> 'os handler) \<Rightarrow> string list \<Rightarrow> 'os state
     \<Rightarrow> json list \<times> daemon_end \<times> 'os state" where
  "daemon_loop env loads impl [] st = ([], EndOfInput, st)"
| "daemon_loop env loads impl (raw # rest) st =
     (let line = str_strip raw
      in if line = [] then daemon_loop env loads impl rest st
         else
           (case loads line of
              JSONDecodeError \<Rightarrow>
                (case daemon_loop env loads impl rest st of
                   (out, fin, st') \<Rightarrow> (JObj [(''error'', JStr ''Invalid JSON'')] # out, fin, st'))
            | LoadsRaised e \<Rightarrow> ([], Crashed e, st)
            | Decoded msg \<Rightarrow>
                (case (dict_get msg ''id'' (JStr []), dict_get msg ''tool'' (JStr []),
                       dict_get msg ''args'' (JObj [])) of
                   (Inr msg_id, Inr tool_id, Inr args) \<Rightarrow>
                     if tool_id = JStr ''_ping''
                     then (case daemon_loop env loads impl rest st of
                             (out, fin, st') \<Rightarrow>
                               (JObj [(''id'', msg_id),
                                      (''result'', JObj [(''pong'', JBool True)])] # out,
                                fin, st'))
                     else if tool_id = JStr ''_cache''
                     then (case daemon_loop env loads impl rest st of
                             (out, fin, st') \<Rightarrow>
                               (JObj [(''id'', msg_id),
                                      (''result'', cache_listing (window_cache st))] # out,
                                fin, st'))
                     else if tool_id = JStr ''_quit''
                     then ([JObj [(''id'', msg_id), (''result'', JObj [(''quit'', JBool True)])]],
                           Quit, st)
                     else
                       (case dispatch env impl tool_id args st of
                          (Inl e, st1) \<Rightarrow> ([], Crashed e, st1)
                        | (Inr result, st1) \<Rightarrow>
                            (case daemon_loop env loads impl rest st1 of
                               (out, fin, st') \<Rightarrow>
                                 (JObj [(''id'', msg_id), (''result'', result)] # out,
                                  fin, st')))
                 | _ \<Rightarrow> ([], Crashed (no_attribute msg ''get''), st))))"

definition run_daemon ::
  "'os env \<Rightarrow> (string \<Rightarrow> decoded) \<Rightarrow> (string \<Rightarrow> 'os handler) \<Rightarrow> int \<Rightarrow> string list
     \<Rightarrow> 'os state \<Rightarrow> json list \<times> daemon_end \<times> 'os state" where
  "run_daemon env loads impl pid lines st =
     (case daemon_loop env loads impl lines st of
        (out, fin, st') \<Rightarrow>
          (JObj [(''ready'', JBool True), (''pid'', JNum pid)] # out, fin, st'))"


section \<open>A small desktop for the examples\<close>

text \<open>
  The examples below run the agent on a desktop whose state is a clock and the input sent
  so far. It has a Calculator (handle 11) and a Notepad window; handle 12 connects to a
  window that no longer exists and every other handle fails to connect. The Calculator has
  a button named 7, and clicking an accessibility element always raises; text recognition
  reads five words, with confidences on both sides of the two floors. The similarity is 1
  on equal strings and 0 otherwise. Input sent through pyautogui is recorded and does not
  raise; drawing a box raises as Pillow does, when the box is inverted.
\<close>

record desk =
  clock :: rat
  sent :: "action list"

definition desk_windows :: "win_info list" where
  "desk_windows =
     [\<lparr>wi_title = Some ''Calculator'', wi_handle = 11, wi_size = Some (320, 480)\<rparr>,
      \<lparr>wi_title = Some ''Untitled - Notepad'', wi_handle = 14, wi_size = Some (900, 700)\<rparr>,
      \<lparr>wi_title = None, wi_handle = 15, wi_size = None\<rparr>]"

definition desk_rows :: "ocr_row list" where
  "desk_rows =
     [\<lparr>o_text = ''View'', o_conf = 91, o_left = 10, o_top = 5, o_width = 40, o_height = 12\<rparr>,
      \<lparr>o_text = '' Edit '', o_conf = 30, o_left = 60, o_top = 5, o_width = 36, o_height = 12\<rparr>,
      \<lparr>o_text = ''Help'', o_conf = 29, o_left = 110, o_top = 5, o_width = 38, o_height = 12\<rparr>,
      \<lparr>o_text = ''Tools'', o_conf = 20, o_left = 160, o_top = 5, o_width = 44, o_height = 12\<rparr>,
      \<lparr>o_text = ''x'', o_conf = 19, o_left = 300, o_top = 5, o_width = 8, o_height = 12\<rparr>]"

definition desk_env :: "desk env" where
  "desk_env =
     \<lparr>tesseract_available = True,
      e_time = clock,
      e_sleep = (\<lambda>d s. s\<lparr>clock := clock s + d\<rparr>),
      e_ratio = (\<lambda>a b. if a = b then 1 else 0),
      e_windows = (\<lambda>s. (Inr desk_windows, s)),
      e_connect_handle =
        (\<lambda>handle s. (if handle = 11 then Connected 11
                       else if handle = 12 then NoWindow else Failed, s)),
      e_connect_title = (\<lambda>name s. (None, s)),
      e_process_scan = (\<lambda>names s. (None, s)),
      e_window_meta = (\<lambda>window s. if window = 11 then Some (11, ''Calculator'', 4242) else None),
      e_focus = (\<lambda>window s. s),
      e_rectangle =
        (\<lambda>window s. Inr \<lparr>wr_left = 100, wr_top = 100, wr_width = 320, wr_height = 480\<rparr>),
      e_child_window =
        (\<lambda>window name control_type s.
           (if name = Title ''7''
            then Exists \<lparr>ei_element = 7, ei_text = ''7'', ei_control_type = ''Button'',
                         ei_rect = \<lparr>wr_left = 120, wr_top = 300, wr_width = 60,
                                    wr_height = 40\<rparr>\<rparr>
            else Missing, s)),
      e_ocr = (\<lambda>scaled region s. (Inr \<lparr>shot_width = 320, rows = desk_rows\<rparr>, s)),
      e_descale = (\<lambda>ww v. v),
      e_dpi_scaled = (\<lambda>window s v. v),
      e_focused = (\<lambda>s. None),
      e_inject = (\<lambda>a s. (None, s\<lparr>sent := sent s @ [a]\<rparr>)),
      e_click_input = (\<lambda>element s. (False, s)),
      e_screenshot = (\<lambda>(rx, ry, rw, rh) s. (Inr (rw, rh), s)),
      e_draw_rectangle =
        (\<lambda>(x0, y0, x1, y1).
           if x1 < x0 \<or> y1 < y0
           then Some \<lparr>exn_class = ''ValueError'',
                       exn_message = ''x1 must be greater than or equal to x0''\<rparr>
           else None),
      e_window_text = (\<lambda>window s. Inr ''Calculator''),
      e_format_exc = (\<lambda>e. ''Traceback (most recent call last): '' @ exn_class e)\<rparr>"

definition desk0 :: "desk state" where
  "desk0 = \<lparr>os = \<lparr>clock = 1000, sent = []\<rparr>, window_cache = [], last_som_elements = []\<rparr>"

text \<open>The same desktop with the pointer in a corner of the screen: every pyautogui call
  raises \<open>FailSafeException\<close> and sends nothing.\<close>

definition fail_safe :: exn where
  "fail_safe = \<lparr>exn_class = ''FailSafeException'',
                 exn_message = ''PyAutoGUI fail-safe triggered''\<rparr>"

definition desk_env_failsafe :: "desk env" where
  "desk_env_failsafe = desk_env\<lparr>e_inject := (\<lambda>a s. (Some fail_safe, s))\<rparr>"


text \<open>The same desktop ten seconds after a Notepad window was cached under handle 12.\<close>

definition desk_cached :: "desk state" where
  "desk_cached =
     desk0\<lparr>window_cache :=
             [(''notepad'', \<lparr>ce_handle = 12, ce_title = ''Untitled - Notepad'', ce_pid = 77,
                             ce_last_seen = 990\<rparr>)]\<rparr>"

text \<open>The same desktop after a visual snapshot that labelled two buttons, 4 and 5.\<close>

definition desk_snapshot :: "desk state" where
  "desk_snapshot =
     desk0\<lparr>last_som_elements :=
             [\<lparr>som_id = 4, som_text = ''Cancel'', som_type = ''button'',
               som_rect = \<lparr>rect_x = 40, rect_y = 200, rect_w = 40, rect_h = 20\<rparr>\<rparr>,
              \<lparr>som_id = 5, som_text = ''OK'', som_type = ''button'',
               som_rect = \<lparr>rect_x = 100, rect_y = 200, rect_w = 40, rect_h = 20\<rparr>\<rparr>]\<rparr>"

text \<open>Two buttons of the Calculator; the first lies to the left of the window, whose
  rectangle starts at (100, 100).\<close>

definition desk_elements :: "ui_element list" where
  "desk_elements =
     [\<lparr>el_text = ''History'', el_control_type = ''Button'',
       el_rect = Some \<lparr>rect_x = 60, rect_y = 120, rect_w = 40, rect_h = 20\<rparr>\<rparr>,
      \<lparr>el_text = ''7'', el_control_type = ''Button'',
       el_rect = Some \<lparr>rect_x = 120, rect_y = 300, rect_w = 60, rect_h = 40\<rparr>\<rparr>]"

text \<open>
  Input lines for the daemon: one that is not JSON, a \<open>gui.click\<close> request, a \<open>_ping\<close>, a
  request whose \<open>tool\<close> is a list, and a line of brackets nested so deep that \<open>json.loads\<close>
  raises \<open>RecursionError\<close> (the brackets themselves are not written out). \<open>desk_loads\<close>
  decodes the three requests, raises on the deep line and rejects every other line; the
  click handler of \<open>desk_impl\<close> raises, every other handler succeeds.
\<close>

definition quoted :: "string \<Rightarrow> string" where
  "quoted s = [CHR 0x22] @ s @ [CHR 0x22]"

definition click_line :: string where
  "click_line = ''{'' @ quoted ''id'' @ '': '' @ quoted ''a1'' @ '', '' @ quoted ''tool'' @ '': ''
                @ quoted ''gui.click'' @ '', '' @ quoted ''args'' @ '': {}}''"

definition ping_line :: string where
  "ping_line = ''{'' @ quoted ''id'' @ '': '' @ quoted ''a2'' @ '', '' @ quoted ''tool'' @ '': ''
               @ quoted ''_ping'' @ ''}''"

definition list_tool_line :: string where
  "list_tool_line = ''{'' @ quoted ''id'' @ '': '' @ quoted ''a3'' @ '', '' @ quoted ''tool''
                    @ '': ['' @ quoted ''gui.click'' @ '']}''"

definition deep_line :: string where
  "deep_line = ''[ [ [ [ ...''"

definition desk_loads :: "string \<Rightarrow> decoded" where
  "desk_loads line =
     (if line = click_line
      then Decoded (JObj [(''id'', JStr ''a1''), (''tool'', JStr ''gui.click''),
                          (''args'', JObj [])])
      else if line = ping_line
      then Decoded (JObj [(''id'', JStr ''a2''), (''tool'', JStr ''_ping'')])
      else if line = list_tool_line
      then Decoded (JObj [(''id'', JStr ''a3''), (''tool'', JArr [JStr ''gui.click''])])
      else if line = deep_line
      then LoadsRaised \<lparr>exn_class = ''RecursionError'',
                         exn_message = ''maximum recursion depth exceeded''\<rparr>
      else JSONDecodeError)"

definition desk_impl :: "string \<Rightarrow> desk handler" where
  "desk_impl tool_id args st =
     (if tool_id = ''gui.click'' then (Inl fail_safe, st)
      else (Inr (JObj [(''pressed'', JBool True)]), st))"

section \<open>The claims, in the words of the specification\<close>

text \<open>
  The title score as the specification words it: 4 when the lower-cased name is a
  substring of the title, 3 when every significant word of the name appears in the title,
  2 when the first significant word equals or is a prefix of some title word, 1 when the
  fuzzy criterion holds, 0 otherwise, in that priority.
\<close>

definition score_as_specified ::
  "(string \<Rightarrow> string \<Rightarrow> rat) \<Rightarrow> string \<Rightarrow> string list \<Rightarrow> string \<Rightarrow> nat" where
  "score_as_specified ratio app_lower app_words title_lower =
     (if str_in app_lower title_lower then 4
      else if list_all (\<lambda>wd. str_in wd title_lower) app_words then 3
      else if app_words \<noteq> []
              \<and> list_ex (\<lambda>tw. tw = hd app_words \<or> prefix (hd app_words) tw)
                    (str_split title_lower) then 2
      else if (2 \<le> length app_words
                \<and> list_all (\<lambda>aw. list_ex (\<lambda>tw. ratio aw tw > 7 / 10) (str_split title_lower))
                      app_words)
              \<or> (length app_words = 1
                   \<and> list_ex (\<lambda>tw. ratio (hd app_words) tw > 85 / 100) (str_split title_lower))
      then 1
      else 0)"

text \<open>
  The order of the tier calls of the cascade as the specification fixes it: Tier 1, then
  Tier 2 when the OCR backend is available (on the hint given, or else on \<open>menu_bar\<close>,
  \<open>center\<close>, \<open>sidebar\<close> in that order), then Tier 3.
\<close>

definition tier_order :: "bool \<Rightarrow> string \<Rightarrow> tier_call list" where
  "tier_order tesseract location_hint =
     [Tier1]
     @ (if tesseract
        then (if location_hint \<noteq> [] then [Tier2 location_hint]
              else [Tier2 ''menu_bar'', Tier2 ''center'', Tier2 ''sidebar''])
        else [])
     @ [Tier3]"

text \<open>
  The cascade as the specification describes it: the tiers of a list are attempted in
  order, each in the state the one before it left, and the cascade stops at the first
  tier that produces a match. \<open>attempt\<close> runs one tier; \<open>first_success\<close> returns the result
  of the tier that matched, or else of the last tier that gave a result, with the calls
  made and the state after the last call.
\<close>

definition attempt ::
  "'os env \<Rightarrow> win \<Rightarrow> string \<Rightarrow> string \<Rightarrow> string \<Rightarrow> tier_call \<Rightarrow> 'os
     \<Rightarrow> find_result option \<times> 'os" where
  "attempt env window element_text element_type location_hint call s =
     (case call of
        Tier1 \<Rightarrow> locate_via_accessibility env window element_text element_type location_hint s
      | Tier2 region \<Rightarrow> locate_via_ocr_region env window element_text region s
      | Tier3 \<Rightarrow>
          (case locate_via_full_scan env window element_text s of (r, s1) \<Rightarrow> (Some r, s1)))"

fun first_success ::
  "'os env \<Rightarrow> win \<Rightarrow> string \<Rightarrow> string \<Rightarrow> string \<Rightarrow> tier_call list \<Rightarrow> 'os
     \<Rightarrow> find_result option \<times> (tier_call \<times> bool) list \<times> 'os" where
  "first_success env window element_text element_type location_hint [] s = (None, [], s)"
| "first_success env window element_text element_type location_hint (call # calls) s =
     (case attempt env window element_text element_type location_hint call s of
        (r, s1) \<Rightarrow>
          if (case r of None \<Rightarrow> False | Some x \<Rightarrow> found x)
          then (r, [(call, True)], s1)
          else
            (case first_success env window element_text element_type location_hint calls s1 of
               (r', made, s2) \<Rightarrow>
                 ((case r' of None \<Rightarrow> r | Some y \<Rightarrow> Some y), (call, False) # made, s2)))"


section \<open>Properties of the string operations\<close>

lemma str_in_set: "str_in n hay \<Longrightarrow> set n \<subseteq> set hay"
proof (induction hay)
  case Nil
  then show ?case by simp
next
  case (Cons c cs)
  then show ?case using set_mono_prefix[of n "c # cs"] by auto
qed

lemma dropWhile_all_space:
  "(\<forall>c\<in>set (dropWhile is_space s). is_space c) \<longleftrightarrow> (\<forall>c\<in>set s. is_space c)"
proof
  assume a: "\<forall>c\<in>set (dropWhile is_space s). is_space c"
  have "dropWhile is_space s = []"
  proof (rule ccontr)
    assume ne: "dropWhile is_space s \<noteq> []"
    then have "\<not> is_space (hd (dropWhile is_space s))" by (rule hd_dropWhile)
    moreover have "hd (dropWhile is_space s) \<in> set (dropWhile is_space s)" using ne by simp
    ultimately show False using a by blast
  qed
  then show "\<forall>c\<in>set s. is_space c" by (simp add: dropWhile_eq_Nil_conv)
next
  assume "\<forall>c\<in>set s. is_space c"
  then show "\<forall>c\<in>set (dropWhile is_space s). is_space c"
    using set_dropWhileD by fastforce
qed

lemma strip_empty_iff: "str_strip s = [] \<longleftrightarrow> (\<forall>c\<in>set s. is_space c)"
proof -
  have "str_strip s = [] \<longleftrightarrow> (\<forall>c\<in>set (dropWhile is_space s). is_space c)"
    by (simp add: str_strip_def dropWhile_eq_Nil_conv)
  then show ?thesis by (simp only: dropWhile_all_space)
qed


lemma strip_subset: "set (str_strip s) \<subseteq> set s"
proof -
  have "set (str_strip s) \<subseteq> set (dropWhile is_space s)"
    unfolding str_strip_def using set_dropWhileD by fastforce
  also have "\<dots> \<subseteq> set s" using set_dropWhileD by fastforce
  finally show ?thesis .
qed

lemma strip_has_char:
  assumes "str_strip s \<noteq> []"
  shows "\<exists>c\<in>set (str_strip s). \<not> is_space c"
proof -
  let ?r = "rev (dropWhile is_space s)"
  have ne: "dropWhile is_space ?r \<noteq> []" using assms by (simp add: str_strip_def)
  then have "\<not> is_space (hd (dropWhile is_space ?r))" by (rule hd_dropWhile)
  moreover have "hd (dropWhile is_space ?r) \<in> set (dropWhile is_space ?r)" using ne by simp
  ultimately show ?thesis by (auto simp: str_strip_def)
qed

lemma split_acc_words:
  "wd \<in> set (split_acc cur s) \<Longrightarrow> \<forall>c\<in>set cur. \<not> is_space c
     \<Longrightarrow> wd \<noteq> [] \<and> (\<forall>c\<in>set wd. \<not> is_space c)"
proof (induction cur s rule: split_acc.induct)
  case (1 cur)
  then show ?case by (simp split: if_splits)
next
  case (2 cur c cs)
  show ?case
  proof (cases "is_space c")
    case True
    show ?thesis
    proof (cases "cur = []")
      case c: True
      from "2.prems"(1) True c have "wd \<in> set (split_acc [] cs)" by simp
      then show ?thesis using "2.IH"(1)[OF True c] by simp
    next
      case c: False
      from "2.prems"(1) True c have "wd = cur \<or> wd \<in> set (split_acc [] cs)" by simp
      then show ?thesis 
      proof
        assume "wd = cur" then show ?thesis using c "2.prems"(2) by simp
      next
        assume "wd \<in> set (split_acc [] cs)"
        then show ?thesis using "2.IH"(2)[OF True c] by simp
      qed
    qed
  next
    case False
    from "2.prems"(1) False have "wd \<in> set (split_acc (cur @ [c]) cs)" by simp
    moreover have "\<forall>c\<in>set (cur @ [c]). \<not> is_space c" using False "2.prems"(2) by simp
    ultimately show ?thesis using "2.IH"(3)[OF False] by blast
  qed
qed

lemma split_acc_blank:
  "\<forall>c\<in>set s. is_space c \<Longrightarrow> split_acc [] s = []"
  by (induction s) auto

lemma matched_words_le: "matched_words ratio tws aws \<le> length aws"
  by (induction aws) auto

lemma matched_words_all:
  "matched_words ratio tws aws = length aws
     \<longleftrightarrow> (\<forall>aw\<in>set aws. \<exists>tw\<in>set tws. ratio aw tw > 7/10)"
proof (induction aws)
  case Nil
  show ?case by simp
next
  case (Cons a aws)
  show ?case using Cons matched_words_le[of ratio tws aws] by (auto simp: list_ex_iff)
qed


lemma split_words:
  assumes "wd \<in> set (str_split s)"
  shows "wd \<noteq> [] \<and> (\<forall>c\<in>set wd. \<not> is_space c)"
  using split_acc_words[of wd "[]" s] assms by (simp add: str_split_def)

lemma blank_not_in:
  assumes blank: "str_strip t = []" and ne: "wd \<noteq> []" and ns: "\<forall>c\<in>set wd. \<not> is_space c"
  shows "\<not> str_in wd t"
proof
  assume "str_in wd t"
  then have "set wd \<subseteq> set t" by (rule str_in_set)
  moreover obtain c where "c \<in> set wd" using ne by (cases wd) auto
  ultimately have "c \<in> set t" "\<not> is_space c" using ns by auto
  then show False using blank by (simp add: strip_empty_iff)
qed

lemma blank_not_in_stripped:
  assumes blank: "str_strip t = []" and ne: "str_strip s \<noteq> []"
  shows "\<not> str_in (str_strip s) t"
proof
  assume "str_in (str_strip s) t"
  then have "set (str_strip s) \<subseteq> set t" by (rule str_in_set)
  moreover obtain c where "c \<in> set (str_strip s)" "\<not> is_space c"
    using strip_has_char[OF ne] by blast
  ultimately show False using blank by (auto simp: strip_empty_iff)
qed

section \<open>Window resolution: the title score and the title scan\<close>

lemma title_matches_nonblank:
  assumes "str_strip t \<noteq> []"
  shows "title_matches ratio app_lower app_words t =
     (if str_in app_lower t then 4
      else if app_words \<noteq> [] \<and> (\<forall>wd\<in>set app_words. str_in wd t) then 3
      else if app_words \<noteq> []
              \<and> (\<exists>tw\<in>set (str_split t). tw = hd app_words \<or> prefix (hd app_words) tw) then 2
      else if (2 \<le> length app_words
                \<and> (\<forall>aw\<in>set app_words. \<exists>tw\<in>set (str_split t). ratio aw tw > 7 / 10))
              \<or> (length app_words = 1
                   \<and> (\<exists>tw\<in>set (str_split t). ratio (hd app_words) tw > 85 / 100)) then 1
      else 0)"
proof -
  have one: "length app_words = 1 \<Longrightarrow> app_words \<noteq> []" by auto
  have two: "2 \<le> length app_words \<Longrightarrow> app_words \<noteq> []" by auto
  show ?thesis
    using assms one two
    by (simp add: title_matches_def Let_def list_all_iff list_ex_iff matched_words_all) blast
qed

lemma title_matches_blank:
  assumes blank: "str_strip t = []"
    and al: "app_lower = str_strip s" "app_lower \<noteq> []"
    and aw: "app_words = significant_words app_lower"
  shows "title_matches ratio app_lower app_words t =
     (if str_in app_lower t then 4
      else if app_words \<noteq> [] \<and> (\<forall>wd\<in>set app_words. str_in wd t) then 3
      else if app_words \<noteq> []
              \<and> (\<exists>tw\<in>set (str_split t). tw = hd app_words \<or> prefix (hd app_words) tw) then 2
      else if (2 \<le> length app_words
                \<and> (\<forall>aw\<in>set app_words. \<exists>tw\<in>set (str_split t). ratio aw tw > 7 / 10))
              \<or> (length app_words = 1
                   \<and> (\<exists>tw\<in>set (str_split t). ratio (hd app_words) tw > 85 / 100)) then 1
      else 0)"
proof -
  have lhs: "title_matches ratio app_lower app_words t = 0"
    using blank by (simp add: title_matches_def)
  have r4: "\<not> str_in app_lower t"
    using blank_not_in_stripped[OF blank, of s] al by simp
  have r3: "\<not> (app_words \<noteq> [] \<and> (\<forall>wd\<in>set app_words. str_in wd t))"
  proof
    assume a: "app_words \<noteq> [] \<and> (\<forall>wd\<in>set app_words. str_in wd t)"
    then obtain wd where wd: "wd \<in> set app_words" by (cases app_words) auto
    then have "wd \<in> set (str_split app_lower)" using aw by (simp add: significant_words_def)
    then have "wd \<noteq> [] \<and> (\<forall>c\<in>set wd. \<not> is_space c)" by (rule split_words)
    then have "\<not> str_in wd t" using blank_not_in[OF blank] by blast
    then show False using a wd by blast
  qed
  have tws: "str_split t = []"
    using blank by (simp add: str_split_def split_acc_blank strip_empty_iff)
  have r1: "\<not> (2 \<le> length app_words \<and> (\<forall>aw\<in>set app_words. \<exists>tw\<in>set (str_split t). ratio aw tw > 7 / 10))"
    by (cases app_words) (auto simp: tws)
  show ?thesis using lhs r4 r3 r1 by (simp add: tws)
qed

lemma title_matches_cascade:
  assumes al: "app_lower = str_strip s" "app_lower \<noteq> []"
    and aw: "app_words = significant_words app_lower"
  shows "title_matches ratio app_lower app_words t =
     (if str_in app_lower t then 4
      else if app_words \<noteq> [] \<and> (\<forall>wd\<in>set app_words. str_in wd t) then 3
      else if app_words \<noteq> []
              \<and> (\<exists>tw\<in>set (str_split t). tw = hd app_words \<or> prefix (hd app_words) tw) then 2
      else if (2 \<le> length app_words
                \<and> (\<forall>aw\<in>set app_words. \<exists>tw\<in>set (str_split t). ratio aw tw > 7 / 10))
              \<or> (length app_words = 1
                   \<and> (\<exists>tw\<in>set (str_split t). ratio (hd app_words) tw > 85 / 100)) then 1
      else 0)"
proof (cases "str_strip t = []")
  case True
  then show ?thesis by (rule title_matches_blank[OF _ al aw])
next
  case False
  then show ?thesis by (rule title_matches_nonblank)
qed

lemma strip_nil: "str_strip [] = []" by (simp add: str_strip_def)

lemma scan_titles_mono:
  "scan_titles ratio al aw ws (b0, m0, h0) = (bs, bm, bh) \<Longrightarrow> b0 \<le> bs"
proof (induction ws arbitrary: b0 m0 h0)
  case Nil
  then show ?case by simp
next
  case (Cons wi ws)
  show ?case
  proof (cases "wi_title wi")
    case None
    then show ?thesis using Cons by simp
  next
    case (Some title)
    show ?thesis
    proof (cases "title = [] \<or> str_strip title = []")
      case True
      then show ?thesis using Cons Some by auto
    next
      case False
      show ?thesis
      proof (cases "title_matches ratio al aw (str_lower title) > b0")
        case True
        with Cons.prems Some False
        have "scan_titles ratio al aw ws (title_matches ratio al aw (str_lower title), Some title, Some (wi_handle wi)) = (bs, bm, bh)"
          by (simp add: Let_def)
        from Cons.IH[OF this] True show ?thesis by simp
      next
        case F: False
        with Cons.prems Some False
        have "scan_titles ratio al aw ws (b0, m0, h0) = (bs, bm, bh)"
          by (simp add: Let_def)
        from Cons.IH[OF this] show ?thesis .
      qed
    qed
  qed
qed

lemma scan_titles_max:
  "scan_titles ratio al aw ws (b0, m0, h0) = (bs, bm, bh) \<Longrightarrow> wi \<in> set ws
     \<Longrightarrow> wi_title wi = Some title \<Longrightarrow> str_strip title \<noteq> []
     \<Longrightarrow> title_matches ratio al aw (str_lower title) \<le> bs"
proof (induction ws arbitrary: b0 m0 h0)
  case Nil
  then show ?case by simp
next
  case (Cons a ws)
  obtain b1 m1 h1 where step:
    "scan_titles ratio al aw (a # ws) (b0, m0, h0) = scan_titles ratio al aw ws (b1, m1, h1)"
    and b1: "b0 \<le> b1"
    and here: "\<And>t. wi_title a = Some t \<Longrightarrow> str_strip t \<noteq> [] \<Longrightarrow> title_matches ratio al aw (str_lower t) \<le> b1"
  proof (cases "wi_title a")
    case None
    then show ?thesis using that[of b0 m0 h0] by simp
  next
    case (Some t)
    show ?thesis
    proof (cases "t = [] \<or> str_strip t = []")
      case True
      then show ?thesis using that[of b0 m0 h0] Some by (auto simp: strip_nil)
    next
      case False
      show ?thesis
      proof (cases "title_matches ratio al aw (str_lower t) > b0")
        case True
        then show ?thesis
          using that[of "title_matches ratio al aw (str_lower t)" "Some t" "Some (wi_handle a)"] Some False
          by (simp add: Let_def)
      next
        case F: False
        then show ?thesis using that[of b0 m0 h0] Some False by (simp add: Let_def)
      qed
    qed
  qed
  from Cons.prems(1) step have rest: "scan_titles ratio al aw ws (b1, m1, h1) = (bs, bm, bh)" by simp
  show ?case
  proof (cases "wi = a")
    case True
    then have "title_matches ratio al aw (str_lower title) \<le> b1"
      using here Cons.prems(3,4) by simp
    also have "b1 \<le> bs" using scan_titles_mono[OF rest] .
    finally show ?thesis .
  next
    case False
    then have "wi \<in> set ws" using Cons.prems(2) by simp
    then show ?thesis using Cons.IH[OF rest _ Cons.prems(3,4)] by simp
  qed
qed

lemma scan_titles_origin:
  "scan_titles ratio al aw ws (b0, m0, h0) = (bs, bm, bh) \<Longrightarrow>
     (bs, bm, bh) = (b0, m0, h0)
     \<or> (\<exists>wi\<in>set ws. \<exists>title. wi_title wi = Some title \<and> str_strip title \<noteq> []
            \<and> bs = title_matches ratio al aw (str_lower title)
            \<and> bm = Some title \<and> bh = Some (wi_handle wi))"
proof (induction ws arbitrary: b0 m0 h0)
  case Nil
  then show ?case by simp
next
  case (Cons a ws)
  show ?case
  proof (cases "wi_title a")
    case None
    then have "scan_titles ratio al aw ws (b0, m0, h0) = (bs, bm, bh)" using Cons.prems by simp
    from Cons.IH[OF this] show ?thesis by auto
  next
    case (Some t)
    show ?thesis
    proof (cases "t = [] \<or> str_strip t = []")
      case True
      then have "scan_titles ratio al aw ws (b0, m0, h0) = (bs, bm, bh)"
        using Cons.prems Some by auto
      from Cons.IH[OF this] show ?thesis by auto
    next
      case False
      show ?thesis
      proof (cases "title_matches ratio al aw (str_lower t) > b0")
        case True
        with Cons.prems Some False
        have "scan_titles ratio al aw ws (title_matches ratio al aw (str_lower t), Some t, Some (wi_handle a)) = (bs, bm, bh)"
          by (simp add: Let_def)
        from Cons.IH[OF this] Some False show ?thesis by auto
      next
        case F: False
        with Cons.prems Some False
        have "scan_titles ratio al aw ws (b0, m0, h0) = (bs, bm, bh)"
          by (simp add: Let_def)
        from Cons.IH[OF this] show ?thesis by auto
      qed
    qed
  qed
qed


lemma connect_by_handle_Some:
  "connect_by_handle env handle s = (Some win, s') \<Longrightarrow> e_connect_handle env handle s = (Connected win, s')"
  by (auto simp: connect_by_handle_def split: prod.splits connect_outcome.splits)

lemma title_scan_accepts:
  assumes "title_scan env app_lower app_words s = (Some win, s')"
  shows "\<exists>wis s1 wi title.
           e_windows env s = (Inr wis, s1) \<and> wi \<in> set wis \<and> wi_title wi = Some title
           \<and> 2 \<le> title_matches (e_ratio env) app_lower app_words (str_lower title)
           \<and> (\<forall>wi'\<in>set wis. \<forall>t'. wi_title wi' = Some t' \<and> str_strip t' \<noteq> []
                 \<longrightarrow> title_matches (e_ratio env) app_lower app_words (str_lower t')
                       \<le> title_matches (e_ratio env) app_lower app_words (str_lower title))
           \<and> e_connect_handle env (wi_handle wi) s1 = (Connected win, s')"
proof -
  obtain wins s1 where w: "e_windows env s = (wins, s1)" by (cases "e_windows env s")
  let ?ws = "case wins of Inl e \<Rightarrow> [] | Inr ws \<Rightarrow> ws"
  obtain bs bm bh where sc:
    "scan_titles (e_ratio env) app_lower app_words ?ws (0, None, None) = (bs, bm, bh)"
    by (cases "scan_titles (e_ratio env) app_lower app_words ?ws (0, None, None)")
  from assms w sc have acc: "handle_truthy bh \<and> 2 \<le> bs"
    by (auto simp: title_scan_def split: if_splits)
  with assms w sc have conn: "connect_by_handle env (the bh) s1 = (Some win, s')"
    by (simp add: title_scan_def)
  from acc have "bh \<noteq> None" by (auto simp: handle_truthy_def split: option.splits)
  with scan_titles_origin[OF sc] obtain wi title where
    wi: "wi \<in> set ?ws" "wi_title wi = Some title" "str_strip title \<noteq> []"
        "bs = title_matches (e_ratio env) app_lower app_words (str_lower title)"
        "bh = Some (wi_handle wi)"
    by auto
  from wi(1) obtain wis where wins: "wins = Inr wis" "wi \<in> set wis"
    by (cases wins) auto
  have mx: "\<forall>wi'\<in>set wis. \<forall>t'. wi_title wi' = Some t' \<and> str_strip t' \<noteq> []
              \<longrightarrow> title_matches (e_ratio env) app_lower app_words (str_lower t') \<le> bs"
    using scan_titles_max[OF sc] wins by auto
  from conn wi(5) have "e_connect_handle env (wi_handle wi) s1 = (Connected win, s')"
    by (simp add: connect_by_handle_Some)
  then show ?thesis using w wins wi acc mx by blast
qed

text \<open>
  Claim C2, as amended. \<open>find_window\<close> scores titles only for a name whose lower-cased,
  stripped form \<open>app_lower\<close> is not empty, with \<open>app_words\<close> its words longer than one
  character. For every title the score is then 4 when \<open>app_lower\<close> is a substring of the
  title; else 3 when the name has at least one significant word and each of them is a
  substring of the title; else 2 when the first significant word equals or is a prefix of
  some title word; else 1 when the fuzzy criterion holds (two or more significant words,
  each with a title word of similarity above 0.7, or exactly one, with a title word of
  similarity above 0.85); else 0. And when the title scan returns a window, it is the
  window of an enumerated title whose score is at least 2 and is the maximum over all
  non-blank titles: a best score of 1 is never accepted.
\<close>

theorem title_score_and_scan_acceptance:
  assumes "app_lower = str_strip (str_lower app_name)" and "app_lower \<noteq> []"
    and "app_words = significant_words app_lower"
  shows "title_matches ratio app_lower app_words t =
          (if str_in app_lower t then 4
           else if app_words \<noteq> [] \<and> (\<forall>wd\<in>set app_words. str_in wd t) then 3
           else if app_words \<noteq> []
                   \<and> (\<exists>tw\<in>set (str_split t). tw = hd app_words \<or> prefix (hd app_words) tw)
           then 2
           else if (2 \<le> length app_words
                     \<and> (\<forall>aw\<in>set app_words. \<exists>tw\<in>set (str_split t). ratio aw tw > 7 / 10))
                   \<or> (length app_words = 1
                        \<and> (\<exists>tw\<in>set (str_split t). ratio (hd app_words) tw > 85 / 100))
           then 1
           else 0)
       \<and> (title_scan env app_lower app_words s = (Some win, s') \<longrightarrow>
            (\<exists>wis s1 wi title.
               e_windows env s = (Inr wis, s1) \<and> wi \<in> set wis \<and> wi_title wi = Some title
               \<and> 2 \<le> title_matches (e_ratio env) app_lower app_words (str_lower title)
               \<and> (\<forall>wi'\<in>set wis. \<forall>t'. wi_title wi' = Some t' \<and> str_strip t' \<noteq> []
                     \<longrightarrow> title_matches (e_ratio env) app_lower app_words (str_lower t')
                           \<le> title_matches (e_ratio env) app_lower app_words (str_lower title))
               \<and> e_connect_handle env (wi_handle wi) s1 = (Connected win, s')))"
  using title_matches_cascade[OF assms, of ratio t] title_scan_accepts[of env app_lower app_words s win s']
  by blast

text \<open>
  Claim C2 as stated fails for a name without a significant word, such as \<open>R\<close>: every
  significant word of the name (there is none) appears in the title
  \<open>untitled - notepad\<close>, so the score as specified is 3, but \<open>_title_matches\<close> guards
  the rule with \<open>app_words and ...\<close> and returns 0.
\<close>

theorem title_score_counterexample:
  "title_matches (e_ratio desk_env) (str_strip (str_lower ''R''))
       (significant_words (str_strip (str_lower ''R''))) ''untitled - notepad'' = 0
   \<and> score_as_specified (e_ratio desk_env) (str_strip (str_lower ''R''))
       (significant_words (str_strip (str_lower ''R''))) ''untitled - notepad'' = 3"
  by code_simp

text \<open>
  Claim C2, on the example desktop: the name \<open>Calculator\<close> scores 4 on the title of the
  Calculator window and the title scan connects to it.
\<close>

theorem title_score_and_scan_acceptance_witness:
  "str_strip (str_lower ''Calculator'') \<noteq> []
   \<and> title_matches (e_ratio desk_env) ''calculator'' [''calculator''] ''calculator'' = 4
   \<and> title_scan desk_env ''calculator'' [''calculator''] (os desk0) = (Some 11, os desk0)
   \<and> e_connect_handle desk_env 11 (os desk0) = (Connected 11, os desk0)"
proof -
  have a: "''calculator'' = str_strip (str_lower ''Calculator'')" by code_simp
  have b: "''calculator'' \<noteq> []" by simp
  have c: "[''calculator''] = significant_words ''calculator''" by code_simp
  have d: "title_scan desk_env ''calculator'' [''calculator''] (os desk0) = (Some 11, os desk0)"
    by code_simp
  have e: "str_in ''calculator'' ''calculator''" by code_simp
  have f: "str_strip (str_lower ''Calculator'') \<noteq> []" by code_simp
  note g = title_score_and_scan_acceptance[OF a b c, of "e_ratio desk_env" "''calculator''"
      desk_env "os desk0" 11 "os desk0"]
  from g e have g1: "title_matches (e_ratio desk_env) ''calculator'' [''calculator''] ''calculator'' = 4"
    by (simp only: if_True)
  from g d obtain wis s1 wi where
    h: "e_windows desk_env (os desk0) = (Inr wis, s1)"
       "e_connect_handle desk_env (wi_handle wi) s1 = (Connected 11, os desk0)"
       "wi \<in> set wis"
    by blast
  have "e_connect_handle desk_env 11 (os desk0) = (Connected 11, os desk0)"
    using h by (auto simp: desk_env_def desk_windows_def split: if_splits)
  with f g1 d show ?thesis by blast
qed

section \<open>The session cache\<close>

lemma cached_window_reused:
  assumes "get_cached_window env app_name st = (Some dlg, st')"
  shows "\<exists>cached s'.
           map_of (window_cache st) (str_lower app_name) = Some cached
           \<and> e_time env (os st) - ce_last_seen cached \<le> 60
           \<and> e_connect_handle env (ce_handle cached) (os st) = (Connected dlg, s')
           \<and> map_of (window_cache st') (str_lower app_name)
               = Some (cached\<lparr>ce_last_seen := e_time env s'\<rparr>)"
  using assms
  by (auto simp: get_cached_window_def Let_def update_conv'
           split: option.splits if_splits prod.splits connect_outcome.splits)

lemma cached_window_expired:
  assumes "map_of (window_cache st) (str_lower app_name) = Some cached"
    and "e_time env (os st) - ce_last_seen cached > 60"
  shows "get_cached_window env app_name st
           = (None, st\<lparr>window_cache := AList.delete (str_lower app_name) (window_cache st)\<rparr>)
         \<and> map_of (AList.delete (str_lower app_name) (window_cache st)) (str_lower app_name) = None"
  using assms by (simp add: get_cached_window_def Let_def delete_conv')

lemma cached_window_connect_raised:
  assumes "map_of (window_cache st) (str_lower app_name) = Some cached"
    and "e_time env (os st) - ce_last_seen cached \<le> 60"
    and "e_connect_handle env (ce_handle cached) (os st) = (Failed, s')"
  shows "get_cached_window env app_name st
           = (None, st\<lparr>os := s', window_cache := AList.delete (str_lower app_name) (window_cache st)\<rparr>)"
  using assms by (simp add: get_cached_window_def Let_def)

text \<open>
  Claim C3: a cached entry is reused only within 60 seconds, an older entry is deleted, a
  successful reconnect refreshes \<open>last_seen\<close>, and a failed reconnect evicts the entry. The
  three lemmas above are the parts of it that hold; the eviction holds when the connect
  raises. When the connect succeeds but \<open>exists(timeout=0.3)\<close> returns false,
  \<open>_get_cached_window\<close> returns \<open>None\<close> and the entry stays in the cache: here the entry
  for Notepad, ten seconds old, whose handle 12 connects to no window.
\<close>

theorem cached_entry_kept_when_window_missing:
  "get_cached_window desk_env ''Notepad'' desk_cached = (None, desk_cached)
   \<and> map_of (window_cache desk_cached) ''notepad''
       = Some \<lparr>ce_handle = 12, ce_title = ''Untitled - Notepad'', ce_pid = 77,
               ce_last_seen = 990\<rparr>
   \<and> e_time desk_env (os desk_cached) - 990 \<le> 60
   \<and> e_connect_handle desk_env 12 (os desk_cached) = (NoWindow, os desk_cached)"
  by code_simp

section \<open>The locator cascade: order of the tiers\<close>

lemma accessibility_found:
  "locate_via_accessibility env window t ty h s = (Some r, s') \<Longrightarrow> found r"
  by (auto simp: locate_via_accessibility_def accessibility_match_def plain_result_def Let_def
           split: prod.splits lookup.splits)

lemma ocr_region_found:
  "locate_via_ocr_region env window t h s = (Some r, s') \<Longrightarrow> found r"
  by (auto simp: locate_via_ocr_region_def plain_result_def Let_def
           split: prod.splits sum.splits option.splits if_splits)

lemma try_regions_trace:
  "try_regions env window t hints s = (r, calls, s') \<Longrightarrow>
     prefix (map fst calls) (map Tier2 hints)
     \<and> (\<forall>c\<in>set (butlast calls). \<not> snd c)
     \<and> (case r of
           Some x \<Rightarrow> calls \<noteq> [] \<and> snd (last calls) \<and> found x
         | None \<Rightarrow> map fst calls = map Tier2 hints \<and> (\<forall>c\<in>set calls. \<not> snd c))"
proof (induction hints arbitrary: s r calls s')
  case Nil
  then show ?case by auto
next
  case (Cons hint hints)
  obtain r1 s1 where l: "locate_via_ocr_region env window t hint s = (r1, s1)"
    by (cases "locate_via_ocr_region env window t hint s")
  show ?case
  proof (cases r1)
    case (Some x)
    then have "r = Some x" "calls = [(Tier2 hint, True)]" using Cons.prems l by auto
    then show ?thesis using ocr_region_found[of env window t hint s x s1] l Some by simp
  next
    case None
    obtain r2 calls2 s2 where t2: "try_regions env window t hints s1 = (r2, calls2, s2)"
      by (cases "try_regions env window t hints s1") auto
    have eq: "r = r2" "calls = (Tier2 hint, False) # calls2" using Cons.prems l None t2 by auto
    note ih = Cons.IH[OF t2]
    show ?thesis
    proof (cases r2)
      case N: None
      then show ?thesis using ih eq by (auto dest: in_set_butlastD)
    next
      case (Some x)
      then have ne: "calls2 \<noteq> []" using ih by simp
      then show ?thesis using ih eq Some by auto
    qed
  qed
qed

lemma first_success_regions:
  "first_success env window t ty h (map Tier2 hints @ rest) s =
     (case try_regions env window t hints s of
        (Some x, calls, s2) \<Rightarrow> (Some x, calls, s2)
      | (None, calls, s2) \<Rightarrow>
          (case first_success env window t ty h rest s2 of
             (r', made, s3) \<Rightarrow> (r', calls @ made, s3)))"
proof (induction hints arbitrary: s)
  case Nil
  then show ?case by (simp split: prod.splits)
next
  case (Cons hint hints)
  obtain r1 s1 where l: "locate_via_ocr_region env window t hint s = (r1, s1)"
    by (cases "locate_via_ocr_region env window t hint s")
  show ?case
  proof (cases r1)
    case (Some x)
    then have "found x" using ocr_region_found[of env window t hint s x s1] l by simp
    then show ?thesis using l Some by (simp add: attempt_def)
  next
    case None
    obtain r2 calls2 s2 where t2: "try_regions env window t hints s1 = (r2, calls2, s2)"
      by (cases "try_regions env window t hints s1") auto
    show ?thesis
      using l None t2 Cons.IH[of s1]
      by (cases r2) (simp_all add: attempt_def split: prod.splits option.splits)
  qed
qed

lemma first_success_full_scan:
  "first_success env window t ty h [Tier3] s =
     (case locate_via_full_scan env window t s of
        (r, s1) \<Rightarrow> (Some r, [(Tier3, found r)], s1))"
  by (simp add: attempt_def split: prod.splits)

lemma first_success_smart_find:
  "first_success env window element_text element_type location_hint
       (tier_order (tesseract_available env) location_hint) s
     = (case smart_find_traced env window element_text element_type location_hint s of
          (result, calls, s') \<Rightarrow> (Some result, calls, s'))"
proof -
  let ?hints = "if tesseract_available env
                then (if location_hint \<noteq> [] then [location_hint]
                      else [''menu_bar'', ''center'', ''sidebar''])
                else []"
  have order: "tier_order (tesseract_available env) location_hint
                 = Tier1 # (map Tier2 ?hints @ [Tier3])"
    by (simp add: tier_order_def)
  obtain r1 s1 where t1:
    "locate_via_accessibility env window element_text element_type location_hint s = (r1, s1)"
    by (cases "locate_via_accessibility env window element_text element_type location_hint s")
  show ?thesis
  proof (cases r1)
    case (Some x)
    then have "found x"
      using accessibility_found[of env window element_text element_type location_hint s x s1] t1
      by simp
    then show ?thesis
      using t1 Some by (simp only: order) (simp add: attempt_def smart_find_traced_def)
  next
    case None
    have reg: "(if tesseract_available env
               then (if location_hint \<noteq> []
                     then try_regions env window element_text [location_hint] s1
                     else try_regions env window element_text
                            [''menu_bar'', ''center'', ''sidebar''] s1)
               else (None, [], s1)) = try_regions env window element_text ?hints s1"
      by simp
    obtain r2 calls2 s2 where t2:
      "try_regions env window element_text ?hints s1 = (r2, calls2, s2)"
      by (cases "try_regions env window element_text ?hints s1") auto
    have rest: "first_success env window element_text element_type location_hint
                  (map Tier2 ?hints @ [Tier3]) s1
                = (case r2 of
                     Some x \<Rightarrow> (Some x, calls2, s2)
                   | None \<Rightarrow>
                       (case locate_via_full_scan env window element_text s2 of
                          (r, s3) \<Rightarrow> (Some r, calls2 @ [(Tier3, found r)], s3)))"
      unfolding first_success_regions t2
      by (simp add: attempt_def split: prod.splits option.splits)
    have lhs: "first_success env window element_text element_type location_hint
                 (Tier1 # (map Tier2 ?hints @ [Tier3])) s
               = (case first_success env window element_text element_type location_hint
                         (map Tier2 ?hints @ [Tier3]) s1 of
                    (r', made, s2) \<Rightarrow> (r', (Tier1, False) # made, s2))"
      using t1 None by (simp add: attempt_def split: prod.splits option.splits)
    have rhs: "smart_find_traced env window element_text element_type location_hint s
               = (case r2 of
                    Some x \<Rightarrow> (x, (Tier1, False) # calls2, s2)
                  | None \<Rightarrow>
                      (case locate_via_full_scan env window element_text s2 of
                         (r, s3) \<Rightarrow> (r, (Tier1, False) # calls2 @ [(Tier3, found r)], s3)))"
      apply (simp only: smart_find_traced_def t1 None prod.case option.case)
      apply (simp only: reg t2 prod.case)
      done
    show ?thesis
      unfolding order lhs rest rhs
      by (simp split: option.splits prod.splits)
  qed
qed

lemma smart_find_traced_calls:
  assumes "smart_find_traced env window element_text element_type location_hint s
             = (result, calls, s')"
  shows "prefix (map fst calls) (tier_order (tesseract_available env) location_hint)
         \<and> calls \<noteq> []
         \<and> (\<forall>c\<in>set (butlast calls). \<not> snd c)
         \<and> (snd (last calls)
              \<or> map fst calls = tier_order (tesseract_available env) location_hint)
         \<and> found result = snd (last calls)"
proof -
  obtain r1 s1 where t1:
    "locate_via_accessibility env window element_text element_type location_hint s = (r1, s1)"
    by (cases "locate_via_accessibility env window element_text element_type location_hint s")
  show ?thesis
  proof (cases r1)
    case (Some x)
    then have "result = x" "calls = [(Tier1, True)]"
      using assms t1 by (auto simp: smart_find_traced_def)
    then show ?thesis
      using accessibility_found[of env window element_text element_type location_hint s x s1]
        t1 Some
      by (simp add: tier_order_def)
  next
    case None
    let ?hints = "if tesseract_available env
                  then (if location_hint \<noteq> [] then [location_hint]
                        else [''menu_bar'', ''center'', ''sidebar''])
                  else []"
    let ?t2 = "if tesseract_available env
               then (if location_hint \<noteq> []
                     then try_regions env window element_text [location_hint] s1
                     else try_regions env window element_text
                            [''menu_bar'', ''center'', ''sidebar''] s1)
               else (None, [], s1)"
    obtain r2 calls2 s2 where t2: "?t2 = (r2, calls2, s2)" by (cases ?t2) auto
    have tr: "try_regions env window element_text ?hints s1 = (r2, calls2, s2)"
      using t2 by (auto split: if_splits)
    note p = try_regions_trace[OF tr]
    have order: "tier_order (tesseract_available env) location_hint
                   = Tier1 # map Tier2 ?hints @ [Tier3]"
      by (simp add: tier_order_def)
    show ?thesis
    proof (cases r2)
      case (Some x)
      then have eq: "result = x" "calls = (Tier1, False) # calls2"
        using assms t1 None t2 by (auto simp: smart_find_traced_def)
      from p Some have ne: "calls2 \<noteq> []" and lastc: "snd (last calls2)" and fx: "found x"
        and pre: "prefix (map fst calls2) (map Tier2 ?hints)"
        and bl: "\<forall>c\<in>set (butlast calls2). \<not> snd c"
        by auto
      have "prefix (map fst calls2) (map Tier2 ?hints @ [Tier3])"
        using pre by (rule prefix_prefix)
      then have "prefix (map fst ((Tier1, False) # calls2)) (Tier1 # map Tier2 ?hints @ [Tier3])"
        by (simp del: map_append)
      then have "prefix (map fst calls) (tier_order (tesseract_available env) location_hint)"
        by (simp only: order eq)
      then show ?thesis using eq ne lastc fx bl by auto
    next
      case N: None
      obtain r3 s3 where t3: "locate_via_full_scan env window element_text s2 = (r3, s3)"
        by (cases "locate_via_full_scan env window element_text s2")
      have eq: "result = r3" "calls = (Tier1, False) # calls2 @ [(Tier3, found r3)]"
        using assms t1 None t2 N t3 by (auto simp: smart_find_traced_def)
      from p N have all: "map fst calls2 = map Tier2 ?hints" and nf: "\<forall>c\<in>set calls2. \<not> snd c"
        by auto
      have "map fst ((Tier1, False) # calls2 @ [(Tier3, found r3)])
              = Tier1 # map Tier2 ?hints @ [Tier3]"
        using all by simp
      then have "map fst calls = tier_order (tesseract_available env) location_hint"
        by (simp only: order eq)
      then show ?thesis using eq nf by (auto simp: butlast_append)
    qed
  qed
qed

text \<open>
  Claim C1. \<open>smart_find\<close> is the cascade over the fixed order Tier 1, Tier 2 (on the hint
  given, or on \<open>menu_bar\<close>, \<open>center\<close>, \<open>sidebar\<close> in that order when no hint is given; absent
  when the OCR backend is not available), Tier 3: running the tiers of that order one
  after the other, each in the state the one before it left, and stopping at the first
  that returns a match, gives the result of \<open>smart_find\<close>, the tier calls it made and the
  state it leaves, so no tier runs after a tier that returned a match. The calls are
  an initial part of the order and Tier 1 is always called; no call that is followed by
  another call returned a match; the calls stop short of the whole order only after a
  call that returned a match; and the result has \<open>found = true\<close> exactly when the last
  call returned a match.
\<close>

theorem smart_find_tier_order:
  assumes "smart_find_traced env window element_text element_type location_hint s
             = (result, calls, s')"
  shows "first_success env window element_text element_type location_hint
           (tier_order (tesseract_available env) location_hint) s = (Some result, calls, s')
         \<and> smart_find env window element_text element_type location_hint s = (result, s')
         \<and> prefix (map fst calls) (tier_order (tesseract_available env) location_hint)
         \<and> calls \<noteq> []
         \<and> (\<forall>c\<in>set (butlast calls). \<not> snd c)
         \<and> (snd (last calls)
              \<or> map fst calls = tier_order (tesseract_available env) location_hint)
         \<and> found result = snd (last calls)"
proof -
  have a: "first_success env window element_text element_type location_hint
             (tier_order (tesseract_available env) location_hint) s = (Some result, calls, s')"
    unfolding first_success_smart_find assms by simp
  have b: "smart_find env window element_text element_type location_hint s = (result, s')"
    unfolding smart_find_def assms by simp
  show ?thesis
    using a b smart_find_traced_calls[OF assms] by simp
qed

text \<open>
  Claim C1 on the example desktop: a text that nothing matches, with no hint, goes through
  Tier 1, the three regions in order, and Tier 3, and a button that Tier 1 finds ends the
  cascade there.
\<close>

theorem smart_find_tier_order_witness:
  "first_success desk_env 11 ''zzz'' [] [] (tier_order (tesseract_available desk_env) [])
       (os desk0)
     = (Some (fst (smart_find desk_env 11 ''zzz'' [] [] (os desk0))),
        [(Tier1, False), (Tier2 ''menu_bar'', False), (Tier2 ''center'', False),
         (Tier2 ''sidebar'', False), (Tier3, False)], os desk0)
   \<and> smart_find desk_env 11 ''zzz'' [] [] (os desk0)
       = (fst (smart_find desk_env 11 ''zzz'' [] [] (os desk0)), os desk0)
   \<and> map fst [(Tier1, False), (Tier2 ''menu_bar'', False), (Tier2 ''center'', False),
         (Tier2 ''sidebar'', False), (Tier3, False)] = tier_order (tesseract_available desk_env) []
   \<and> \<not> found (fst (smart_find desk_env 11 ''zzz'' [] [] (os desk0)))
   \<and> fst (snd (smart_find_traced desk_env 11 ''7'' [] [] (os desk0))) = [(Tier1, True)]"
proof -
  have a: "smart_find_traced desk_env 11 ''zzz'' [] [] (os desk0)
     = (fst (smart_find desk_env 11 ''zzz'' [] [] (os desk0)),
        [(Tier1, False), (Tier2 ''menu_bar'', False), (Tier2 ''center'', False),
         (Tier2 ''sidebar'', False), (Tier3, False)], os desk0)"
    by code_simp
  have b: "fst (snd (smart_find_traced desk_env 11 ''7'' [] [] (os desk0))) = [(Tier1, True)]"
    by code_simp
  from smart_find_tier_order[OF a] show ?thesis using b by simp
qed

section \<open>The locator cascade: candidates of the OCR tiers\<close>

lemma region_items_acc:
  "region_items rx ry rws acc =
     acc @ map (\<lambda>row. \<lparr>it_text = str_strip (o_text row), it_confidence = o_conf row,
                        it_rect = \<lparr>rect_x = rx + o_left row, rect_y = ry + o_top row,
                                   rect_w = o_width row, rect_h = o_height row\<rparr>,
                        it_index = None\<rparr>)
             (filter (\<lambda>row. str_strip (o_text row) \<noteq> [] \<and> 30 \<le> o_conf row) rws)"
  by (induction rws arbitrary: acc) (auto simp: Let_def)

lemma full_items_texts:
  "map (\<lambda>it. (it_text it, it_confidence it)) (full_items descale scaled wx wy rws acc) =
     map (\<lambda>it. (it_text it, it_confidence it)) acc
     @ map (\<lambda>row. (str_strip (o_text row), o_conf row))
         (filter (\<lambda>row. str_strip (o_text row) \<noteq> [] \<and> 20 \<le> o_conf row) rws)"
  by (induction rws arbitrary: acc) (auto simp: Let_def)

lemma full_items_length:
  "length (full_items descale scaled wx wy rws acc) =
     length acc + length (filter (\<lambda>row. str_strip (o_text row) \<noteq> [] \<and> 20 \<le> o_conf row) rws)"
  by (induction rws arbitrary: acc) (auto simp: Let_def)


lemma full_items_acc:
  "full_items descale scaled wx wy rws acc =
     acc @ map (\<lambda>(i, row).
                 \<lparr>it_text = str_strip (o_text row), it_confidence = o_conf row,
                  it_rect = (if scaled
                             then \<lparr>rect_x = wx + descale (o_left row),
                                   rect_y = wy + descale (o_top row),
                                   rect_w = descale (o_width row),
                                   rect_h = descale (o_height row)\<rparr>
                             else \<lparr>rect_x = wx + o_left row, rect_y = wy + o_top row,
                                   rect_w = o_width row, rect_h = o_height row\<rparr>),
                  it_index = Some i\<rparr>)
             (enumerate (length acc)
                (filter (\<lambda>row. str_strip (o_text row) \<noteq> [] \<and> 20 \<le> o_conf row) rws))"
  by (induction rws arbitrary: acc) (auto simp: Let_def)

text \<open>
  Claim C6. The candidates of the Tier 2 scan are, in order, exactly the recognised rows
  whose text is not empty after trimming and whose confidence is at least 30, each with
  its trimmed text, its confidence and its rectangle moved by the region's origin; a row
  with confidence 29 is not among them. The candidates of the Tier 3 scan are the rows
  with non-empty trimmed text and confidence at least 20, numbered from 0.
\<close>

theorem ocr_confidence_floors:
  "region_items rx ry rws [] =
     map (\<lambda>row. \<lparr>it_text = str_strip (o_text row), it_confidence = o_conf row,
                  it_rect = \<lparr>rect_x = rx + o_left row, rect_y = ry + o_top row,
                             rect_w = o_width row, rect_h = o_height row\<rparr>,
                  it_index = None\<rparr>)
       (filter (\<lambda>row. str_strip (o_text row) \<noteq> [] \<and> 30 \<le> o_conf row) rws)
   \<and> full_items descale scaled wx wy rws [] =
     map (\<lambda>(i, row).
            \<lparr>it_text = str_strip (o_text row), it_confidence = o_conf row,
             it_rect = (if scaled
                        then \<lparr>rect_x = wx + descale (o_left row),
                              rect_y = wy + descale (o_top row),
                              rect_w = descale (o_width row),
                              rect_h = descale (o_height row)\<rparr>
                        else \<lparr>rect_x = wx + o_left row, rect_y = wy + o_top row,
                              rect_w = o_width row, rect_h = o_height row\<rparr>),
             it_index = Some i\<rparr>)
       (enumerate 0 (filter (\<lambda>row. str_strip (o_text row) \<noteq> [] \<and> 20 \<le> o_conf row) rws))"
  using region_items_acc[of rx ry rws "[]"] full_items_acc[of descale scaled wx wy rws "[]"]
  by simp

text \<open>
  Claim C6 on the rows of the example desktop, with confidences 91, 30, 29, 20 and 19:
  Tier 2 keeps the first two, Tier 3 the first four.
\<close>

theorem ocr_confidence_floors_witness:
  "map (\<lambda>it. (it_text it, it_confidence it)) (region_items 100 100 desk_rows [])
     = [(''View'', 91), (''Edit'', 30)]
   \<and> map (\<lambda>it. (it_text it, it_confidence it)) (full_items id False 100 100 desk_rows [])
     = [(''View'', 91), (''Edit'', 30), (''Help'', 29), (''Tools'', 20)]"
proof -
  have "map (\<lambda>it. (it_text it, it_confidence it)) (region_items 100 100 desk_rows [])
          = [(''View'', 91), (''Edit'', 30)]"
    by (subst conjunct1[OF ocr_confidence_floors]) code_simp
  moreover have "map (\<lambda>it. (it_text it, it_confidence it))
                   (full_items id False 100 100 desk_rows [])
          = [(''View'', 91), (''Edit'', 30), (''Help'', 29), (''Tools'', 20)]"
    by (subst conjunct2[OF ocr_confidence_floors]) code_simp
  ultimately show ?thesis by blast
qed

section \<open>The locator cascade: when nothing matches\<close>

lemma str_in_refl_append: "str_in n (n @ b)"
proof (cases "n @ b")
  case Nil
  then show ?thesis by simp
next
  case (Cons c cs)
  have "prefix n (n @ b)" by simp
  then show ?thesis using Cons by simp
qed

lemma str_in_append: "str_in n (a @ n @ b)"
proof (induction a)
  case Nil
  show ?case using str_in_refl_append by simp
next
  case (Cons c a)
  then show ?case by simp
qed

lemma exact_match_None:
  "exact_match element_text ocr_items = None \<longleftrightarrow>
     (\<forall>item\<in>set ocr_items. \<not> str_in (str_lower element_text) (str_lower (it_text item)))"
proof -
  have "str_in n n" for n using str_in_refl_append[of n "[]"] by simp
  then show ?thesis by (auto simp: exact_match_def Let_def find_None_iff)
qed

lemma best_fuzzy_loop_Some:
  "best_fuzzy_loop ratio needle items (Some b) bs \<noteq> None"
  by (induction items arbitrary: b bs) (auto simp: Let_def)

lemma best_fuzzy_loop_None:
  "best_fuzzy_loop ratio needle items None bs = None \<longleftrightarrow>
     (\<forall>item\<in>set items. str_strip (it_text item) \<noteq> []
          \<longrightarrow> fuzzy_score ratio needle (str_strip (it_text item)) \<le> bs)"
  by (induction items arbitrary: bs) (auto simp: Let_def best_fuzzy_loop_Some)


lemma tesseract_missing_names_backend:
  "\<exists>msg. fr_error (tesseract_missing element_text) = Some msg
         \<and> str_in ''Tesseract OCR is not installed'' msg
         \<and> str_in ''choco install tesseract -y'' msg"
proof -
  let ?P = "''Element '' @ [CHR 0x27] @ element_text @ [CHR 0x27]
             @ '' not found via accessibility tree. ''"
  let ?Q = "'', so Tier 2/3 OCR fallback is unavailable. To fix: use shell.powershell to run: ''"
  let ?R = "''   OR   download from https://github.com/UB-Mannheim/tesseract/releases ''
             @ ''and install to C:'' @ [CHR 0x5C] @ ''Program Files'' @ [CHR 0x5C]
             @ ''Tesseract-OCR'' @ [CHR 0x5C]"
  let ?msg = "?P @ ''Tesseract OCR is not installed'' @ (?Q @ ''choco install tesseract -y'' @ ?R)"
  have e: "fr_error (tesseract_missing element_text) = Some ?msg"
    by (simp add: tesseract_missing_def plain_result_def)
  have a: "str_in ''Tesseract OCR is not installed'' ?msg"
    by (rule str_in_append)
  have "str_in ''choco install tesseract -y''
          ((?P @ ''Tesseract OCR is not installed'' @ ?Q) @ ''choco install tesseract -y'' @ ?R)"
    by (rule str_in_append)
  then have b: "str_in ''choco install tesseract -y'' ?msg" by (simp only: append_assoc)
  from e a b show ?thesis by blast
qed

lemma full_items_index:
  "map it_index (full_items descale scaled wx wy rws []) =
     map Some [0..<length (full_items descale scaled wx wy rws [])]"
proof -
  let ?xs = "filter (\<lambda>row. str_strip (o_text row) \<noteq> [] \<and> 20 \<le> o_conf row) rws"
  have "map it_index (full_items descale scaled wx wy rws [])
          = map (\<lambda>p. Some (fst p)) (enumerate 0 ?xs)"
    by (simp add: full_items_acc[of descale scaled wx wy rws "[]", simplified] case_prod_beta)
  also have "\<dots> = map Some (map fst (enumerate 0 ?xs))" by (simp only: map_map comp_def)
  also have "\<dots> = map Some [0..<length ?xs]" by (simp only: map_fst_enumerate add_0)
  finally show ?thesis by (simp add: full_items_length)
qed

text \<open>
  Claim C5. First part: the OCR backend is available, the window rectangle is read and is
  not empty, the capture succeeds, the scan has at least one candidate, no candidate
  contains the text and no candidate has a fuzzy score above 0.55; then Tier 3 returns
  \<open>found = false\<close> with \<open>needs_llm\<close> set and a dump of the first 50 candidates at most,
  each with its text and screen rectangle, numbered from 0. Second part: the OCR backend
  is absent and Tier 1 returned nothing; then \<open>smart_find\<close> returns \<open>found = false\<close> with an
  error that names Tesseract OCR as not installed and gives the command that installs
  it, also under \<open>install_hint\<close>.
\<close>

theorem full_scan_diagnostics:
  "(tesseract_available env \<and> e_rectangle env window s = Inr rect
      \<and> 0 < wr_width rect \<and> 0 < wr_height rect
      \<and> e_ocr env True (wr_left rect, wr_top rect, wr_width rect, wr_height rect) s
          = (Inr cap, s1)
      \<and> ocr_items = full_items (e_descale env (wr_width rect))
                       (shot_width cap > 1280 \<and> wr_width rect \<noteq> 1280)
                       (wr_left rect) (wr_top rect) (rows cap) []
      \<and> ocr_items \<noteq> []
      \<and> (\<forall>item\<in>set ocr_items.
            \<not> str_in (str_lower element_text) (str_lower (it_text item)))
      \<and> (\<forall>item\<in>set ocr_items. str_strip (it_text item) \<noteq> [] \<longrightarrow>
            fuzzy_score (e_ratio env) element_text (str_strip (it_text item)) \<le> 55 / 100)
    \<longrightarrow> (\<exists>r dump. locate_via_full_scan env window element_text s = (r, s1)
            \<and> \<not> found r \<and> fr_needs_llm r = Some True
            \<and> fr_ocr_dump r = Some dump \<and> length dump \<le> 50
            \<and> length dump = min 50 (length ocr_items)
            \<and> map d_text dump = map it_text (take 50 ocr_items)
            \<and> map d_rect dump = map it_rect (take 50 ocr_items)
            \<and> map d_index dump = [0..<length dump]
            \<and> fr_ocr_item_count r = Some (length ocr_items)))
   \<and> (\<not> tesseract_available env
        \<and> locate_via_accessibility env window element_text element_type location_hint s
            = (None, s1)
    \<longrightarrow> (\<exists>r msg. smart_find env window element_text element_type location_hint s = (r, s1)
            \<and> \<not> found r \<and> fr_tesseract_available r = Some False
            \<and> fr_install_hint r = Some ''shell.powershell: choco install tesseract -y''
            \<and> fr_error r = Some msg
            \<and> str_in ''Tesseract OCR is not installed'' msg
            \<and> str_in ''choco install tesseract -y'' msg))"
proof (intro conjI impI)
  assume a: "tesseract_available env \<and> e_rectangle env window s = Inr rect
      \<and> 0 < wr_width rect \<and> 0 < wr_height rect
      \<and> e_ocr env True (wr_left rect, wr_top rect, wr_width rect, wr_height rect) s
          = (Inr cap, s1)
      \<and> ocr_items = full_items (e_descale env (wr_width rect))
                       (shot_width cap > 1280 \<and> wr_width rect \<noteq> 1280)
                       (wr_left rect) (wr_top rect) (rows cap) []
      \<and> ocr_items \<noteq> []
      \<and> (\<forall>item\<in>set ocr_items.
            \<not> str_in (str_lower element_text) (str_lower (it_text item)))
      \<and> (\<forall>item\<in>set ocr_items. str_strip (it_text item) \<noteq> [] \<longrightarrow>
            fuzzy_score (e_ratio env) element_text (str_strip (it_text item)) \<le> 55 / 100)"
  then have ex: "exact_match element_text ocr_items = None"
    by (simp add: exact_match_None)
  from a have fz: "best_fuzzy_match (e_ratio env) element_text ocr_items (55 / 100) = None"
    by (simp add: best_fuzzy_match_def best_fuzzy_loop_None)
  let ?r = "(plain_result False ''ocr_full_no_match'')
              \<lparr>fr_error := Some (''OCR found '' @ str_nat (length ocr_items)
                                   @ '' text items but none matched '' @ [CHR 0x27]
                                   @ element_text @ [CHR 0x27]),
               fr_ocr_dump := Some (ocr_dump_of ocr_items),
               fr_ocr_item_count := Some (length ocr_items),
               fr_needs_llm := Some True\<rparr>"
  from a have oi: "full_items (e_descale env (wr_width rect))
                       (shot_width cap > 1280 \<and> wr_width rect \<noteq> 1280)
                       (wr_left rect) (wr_top rect) (rows cap) [] = ocr_items"
    and ne: "ocr_items \<noteq> []"
    and pre: "tesseract_available env" "e_rectangle env window s = Inr rect"
      "0 < wr_width rect" "0 < wr_height rect"
      "e_ocr env True (wr_left rect, wr_top rect, wr_width rect, wr_height rect) s
          = (Inr cap, s1)"
    by blast+
  have run: "locate_via_full_scan env window element_text s = (?r, s1)"
    using pre ne ex fz by (simp add: locate_via_full_scan_def Let_def oi)
  have idx: "map d_index (ocr_dump_of ocr_items) = [0..<length (ocr_dump_of ocr_items)]"
  proof -
    have "map it_index ocr_items = map Some [0..<length ocr_items]"
      using a full_items_index by blast
    then have "take 50 (map it_index ocr_items) = take 50 (map Some [0..<length ocr_items])"
      by simp
    then have "map it_index (take 50 ocr_items) = map Some (take 50 [0..<length ocr_items])"
      by (simp only: take_map)
    moreover have "take 50 [0..<length ocr_items] = [0..<min 50 (length ocr_items)]"
      by (cases "50 \<le> length ocr_items") (simp_all add: min_def)
    ultimately have "map it_index (take 50 ocr_items) = map Some [0..<min 50 (length ocr_items)]"
      by simp
    then have "map the (map it_index (take 50 ocr_items))
                 = map the (map Some [0..<min 50 (length ocr_items)])"
      by (rule arg_cong)
    then have "map (\<lambda>it. the (it_index it)) (take 50 ocr_items) = [0..<min 50 (length ocr_items)]"
      by (simp add: comp_def)
    then show ?thesis by (simp add: ocr_dump_of_def comp_def min_def)
  qed
  have "\<not> found ?r \<and> fr_needs_llm ?r = Some True
        \<and> fr_ocr_dump ?r = Some (ocr_dump_of ocr_items)
        \<and> length (ocr_dump_of ocr_items) \<le> 50
        \<and> length (ocr_dump_of ocr_items) = min 50 (length ocr_items)
        \<and> map d_text (ocr_dump_of ocr_items) = map it_text (take 50 ocr_items)
        \<and> map d_rect (ocr_dump_of ocr_items) = map it_rect (take 50 ocr_items)
        \<and> fr_ocr_item_count ?r = Some (length ocr_items)"
    by (simp add: plain_result_def ocr_dump_of_def comp_def)
  with run idx show "\<exists>r dump. locate_via_full_scan env window element_text s = (r, s1)
            \<and> \<not> found r \<and> fr_needs_llm r = Some True
            \<and> fr_ocr_dump r = Some dump \<and> length dump \<le> 50
            \<and> length dump = min 50 (length ocr_items)
            \<and> map d_text dump = map it_text (take 50 ocr_items)
            \<and> map d_rect dump = map it_rect (take 50 ocr_items)
            \<and> map d_index dump = [0..<length dump]
            \<and> fr_ocr_item_count r = Some (length ocr_items)"
    by blast
next
  assume b: "\<not> tesseract_available env
        \<and> locate_via_accessibility env window element_text element_type location_hint s
            = (None, s1)"
  then have run: "smart_find env window element_text element_type location_hint s
                    = (tesseract_missing element_text, s1)"
    by (simp add: smart_find_def smart_find_traced_def locate_via_full_scan_def)
  have "\<not> found (tesseract_missing element_text)
        \<and> fr_tesseract_available (tesseract_missing element_text) = Some False
        \<and> fr_install_hint (tesseract_missing element_text)
            = Some ''shell.powershell: choco install tesseract -y''"
    by (simp add: tesseract_missing_def plain_result_def)
  with run tesseract_missing_names_backend[of element_text]
  show "\<exists>r msg. smart_find env window element_text element_type location_hint s = (r, s1)
            \<and> \<not> found r \<and> fr_tesseract_available r = Some False
            \<and> fr_install_hint r = Some ''shell.powershell: choco install tesseract -y''
            \<and> fr_error r = Some msg
            \<and> str_in ''Tesseract OCR is not installed'' msg
            \<and> str_in ''choco install tesseract -y'' msg"
    by blast
qed

text \<open>
  Claim C5 on the example desktop: the text \<open>zzz\<close> matches none of the four candidates,
  which are all dumped; without the backend the same search ends with the hint.
\<close>

theorem full_scan_diagnostics_witness:
  "(\<exists>r dump. locate_via_full_scan desk_env 11 ''zzz'' (os desk0) = (r, os desk0)
       \<and> \<not> found r \<and> fr_needs_llm r = Some True \<and> fr_ocr_dump r = Some dump
       \<and> map d_text dump = [''View'', ''Edit'', ''Help'', ''Tools''])
   \<and> (\<exists>r msg. smart_find (desk_env\<lparr>tesseract_available := False\<rparr>) 11 ''zzz'' [] [] (os desk0)
                  = (r, os desk0)
       \<and> \<not> found r \<and> fr_error r = Some msg \<and> str_in ''Tesseract OCR is not installed'' msg)"
proof -
  let ?rect = "\<lparr>wr_left = 100, wr_top = 100, wr_width = 320, wr_height = 480\<rparr>"
  let ?cap = "\<lparr>shot_width = 320, rows = desk_rows\<rparr>"
  define items where "items = full_items (e_descale desk_env (wr_width ?rect))
                  (shot_width ?cap > 1280 \<and> wr_width ?rect \<noteq> 1280)
                  (wr_left ?rect) (wr_top ?rect) (rows ?cap) []"
  have h1: "tesseract_available desk_env" by code_simp
  have h2: "e_rectangle desk_env 11 (os desk0) = Inr ?rect" by code_simp
  have h3: "0 < wr_width ?rect" "0 < wr_height ?rect" by simp_all
  have h4: "e_ocr desk_env True (wr_left ?rect, wr_top ?rect, wr_width ?rect, wr_height ?rect)
              (os desk0) = (Inr ?cap, os desk0)" by code_simp
  have h5: "items \<noteq> []" unfolding items_def by code_simp
  have h6: "\<forall>item\<in>set items. \<not> str_in (str_lower ''zzz'') (str_lower (it_text item))"
    unfolding items_def by code_simp
  have h7: "\<forall>item\<in>set items. str_strip (it_text item) \<noteq> [] \<longrightarrow>
              fuzzy_score (e_ratio desk_env) ''zzz'' (str_strip (it_text item)) \<le> 55 / 100"
    unfolding items_def by code_simp
  have texts: "map it_text (take 50 items) = [''View'', ''Edit'', ''Help'', ''Tools'']"
    unfolding items_def by code_simp
  have prem: "tesseract_available desk_env \<and> e_rectangle desk_env 11 (os desk0) = Inr ?rect
      \<and> 0 < wr_width ?rect \<and> 0 < wr_height ?rect
      \<and> e_ocr desk_env True (wr_left ?rect, wr_top ?rect, wr_width ?rect, wr_height ?rect) (os desk0)
          = (Inr ?cap, os desk0)
      \<and> items = full_items (e_descale desk_env (wr_width ?rect))
                       (shot_width ?cap > 1280 \<and> wr_width ?rect \<noteq> 1280)
                       (wr_left ?rect) (wr_top ?rect) (rows ?cap) []
      \<and> items \<noteq> []
      \<and> (\<forall>item\<in>set items.
            \<not> str_in (str_lower ''zzz'') (str_lower (it_text item)))
      \<and> (\<forall>item\<in>set items. str_strip (it_text item) \<noteq> [] \<longrightarrow>
            fuzzy_score (e_ratio desk_env) ''zzz'' (str_strip (it_text item)) \<le> 55 / 100)"
    using h1 h2 h3 h4 h5 h6 h7 items_def by (intro conjI)
  note c1 = full_scan_diagnostics[where env = desk_env and window = 11 and s = "os desk0"
      and rect = ?rect and cap = ?cap and ?s1.0 = "os desk0" and ocr_items = items
      and element_text = "''zzz''", THEN conjunct1, THEN mp, OF prem]
  then obtain r dump where a:
    "locate_via_full_scan desk_env 11 ''zzz'' (os desk0) = (r, os desk0)"
    "\<not> found r" "fr_needs_llm r = Some True" "fr_ocr_dump r = Some dump"
    "map d_text dump = map it_text (take 50 items)"
    by (elim exE conjE)
  have part1: "\<exists>r dump. locate_via_full_scan desk_env 11 ''zzz'' (os desk0) = (r, os desk0)
       \<and> \<not> found r \<and> fr_needs_llm r = Some True \<and> fr_ocr_dump r = Some dump
       \<and> map d_text dump = [''View'', ''Edit'', ''Help'', ''Tools'']"
    using a texts by (intro exI[of _ r] exI[of _ dump]) (simp only: simp_thms)
  have g: "\<not> tesseract_available (desk_env\<lparr>tesseract_available := False\<rparr>)
       \<and> locate_via_accessibility (desk_env\<lparr>tesseract_available := False\<rparr>) 11 ''zzz'' [] []
              (os desk0) = (None, os desk0)" by code_simp
  note c2 = full_scan_diagnostics[where env = "desk_env\<lparr>tesseract_available := False\<rparr>"
      and window = 11 and element_text = "''zzz''" and element_type = "[]"
      and location_hint = "[]" and s = "os desk0" and ?s1.0 = "os desk0",
      THEN conjunct2, THEN mp, OF g]
  then obtain r2 msg where b:
    "smart_find (desk_env\<lparr>tesseract_available := False\<rparr>) 11 ''zzz'' [] [] (os desk0)
       = (r2, os desk0)"
    "\<not> found r2" "fr_error r2 = Some msg" "str_in ''Tesseract OCR is not installed'' msg"
    by (elim exE conjE)
  have part2: "\<exists>r msg. smart_find (desk_env\<lparr>tesseract_available := False\<rparr>) 11 ''zzz'' [] [] (os desk0)
                  = (r, os desk0)
       \<and> \<not> found r \<and> fr_error r = Some msg \<and> str_in ''Tesseract OCR is not installed'' msg"
    using b by (intro exI[of _ r2] exI[of _ msg]) (simp only: simp_thms)
  from part1 part2 show ?thesis by (rule conjI)
qed

section \<open>Clicking by snapshot id\<close>

lemma find_Some_D: "find P xs = Some x \<Longrightarrow> x \<in> set xs \<and> P x"
  by (induction xs) (auto split: if_splits)

text \<open>
  Claim C7, corrected. As stated the claim fails: the click is made by pyautogui with
  the fail-safe on, nothing in \<open>handle_click\<close> catches what it raises, and then a request
  whose \<open>som_id\<close> is in the snapshot does not report \<open>clicked = true\<close> (the counterexample
  below). What holds: for a request with a \<open>som_id\<close> (an integer) that some element of the
  last visual snapshot carries, \<open>_do_click\<close> is called at the point
  \<open>(x + w // 2, y + h // 2)\<close> of such an element's stored rectangle; when that call
  returns, the result has \<open>clicked = true\<close>, method \<open>som_id\<close>, that point and no error,
  and the state is the one after the click, the pause and the dialog check; when it
  raises, the exception leaves \<open>handle_click\<close>. A \<open>som_id\<close> that no element carries is
  answered with \<open>clicked = false\<close> and an error, and nothing else happens.
\<close>

theorem click_by_som_id:
  "((\<exists>sel\<in>set (last_som_elements st). som_id sel = sid) \<longrightarrow>
      (\<exists>sel\<in>set (last_som_elements st).
          som_id sel = sid
          \<and> (case do_click env (rect_x (som_rect sel) + rect_w (som_rect sel) div 2)
                     (rect_y (som_rect sel) + rect_h (som_rect sel) div 2)
                     (ca_click_type args) (os st) of
                (None, s1) \<Rightarrow>
                  (\<exists>r. handle_click env (args\<lparr>ca_som_id := Some sid\<rparr>) st
                         = (Inr r, st\<lparr>os := snd (check_for_dialog env (ca_app_name args)
                                                  (e_sleep env (15 / 100) s1))\<rparr>)
                       \<and> clicked r \<and> cr_method r = Some ''som_id'' \<and> cr_som_id r = Some sid
                       \<and> cr_error r = None
                       \<and> cr_x r = Some (rect_x (som_rect sel) + rect_w (som_rect sel) div 2)
                       \<and> cr_y r = Some (rect_y (som_rect sel) + rect_h (som_rect sel) div 2))
              | (Some e, s1) \<Rightarrow>
                  handle_click env (args\<lparr>ca_som_id := Some sid\<rparr>) st
                    = (Inl e, st\<lparr>os := s1\<rparr>))))
   \<and> ((\<forall>sel\<in>set (last_som_elements st). som_id sel \<noteq> sid) \<longrightarrow>
      (\<exists>r. handle_click env (args\<lparr>ca_som_id := Some sid\<rparr>) st = (Inr r, st)
           \<and> \<not> clicked r \<and> cr_error r \<noteq> None))"
proof (intro conjI impI)
  assume "\<exists>sel\<in>set (last_som_elements st). som_id sel = sid"
  then have "find (\<lambda>sel. som_id sel = sid) (last_som_elements st) \<noteq> None"
    by (auto simp: find_None_iff)
  then obtain sel where f: "find (\<lambda>sel. som_id sel = sid) (last_som_elements st) = Some sel"
    by blast
  then have m: "sel \<in> set (last_som_elements st)" "som_id sel = sid"
    using find_Some_D[OF f] by simp_all
  let ?cx = "rect_x (som_rect sel) + rect_w (som_rect sel) div 2"
  let ?cy = "rect_y (som_rect sel) + rect_h (som_rect sel) div 2"
  obtain raised s1 where c: "do_click env ?cx ?cy (ca_click_type args) (os st) = (raised, s1)"
    by (cases "do_click env ?cx ?cy (ca_click_type args) (os st)")
  obtain dialog s3 where d:
    "check_for_dialog env (ca_app_name args) (e_sleep env (15 / 100) s1) = (dialog, s3)"
    by (cases "check_for_dialog env (ca_app_name args) (e_sleep env (15 / 100) s1)")
  have "case do_click env ?cx ?cy (ca_click_type args) (os st) of
          (None, s1) \<Rightarrow>
            (\<exists>r. handle_click env (args\<lparr>ca_som_id := Some sid\<rparr>) st
                   = (Inr r, st\<lparr>os := snd (check_for_dialog env (ca_app_name args)
                                            (e_sleep env (15 / 100) s1))\<rparr>)
                 \<and> clicked r \<and> cr_method r = Some ''som_id'' \<and> cr_som_id r = Some sid
                 \<and> cr_error r = None \<and> cr_x r = Some ?cx \<and> cr_y r = Some ?cy)
        | (Some e, s1) \<Rightarrow>
            handle_click env (args\<lparr>ca_som_id := Some sid\<rparr>) st = (Inl e, st\<lparr>os := s1\<rparr>)"
    using f c d
    by (cases raised) (simp_all add: handle_click_def click_som_def Let_def click_done_def)
  then show "\<exists>sel\<in>set (last_som_elements st).
          som_id sel = sid
          \<and> (case do_click env (rect_x (som_rect sel) + rect_w (som_rect sel) div 2)
                     (rect_y (som_rect sel) + rect_h (som_rect sel) div 2)
                     (ca_click_type args) (os st) of
                (None, s1) \<Rightarrow>
                  (\<exists>r. handle_click env (args\<lparr>ca_som_id := Some sid\<rparr>) st
                         = (Inr r, st\<lparr>os := snd (check_for_dialog env (ca_app_name args)
                                                  (e_sleep env (15 / 100) s1))\<rparr>)
                       \<and> clicked r \<and> cr_method r = Some ''som_id'' \<and> cr_som_id r = Some sid
                       \<and> cr_error r = None
                       \<and> cr_x r = Some (rect_x (som_rect sel) + rect_w (som_rect sel) div 2)
                       \<and> cr_y r = Some (rect_y (som_rect sel) + rect_h (som_rect sel) div 2))
              | (Some e, s1) \<Rightarrow>
                  handle_click env (args\<lparr>ca_som_id := Some sid\<rparr>) st
                    = (Inl e, st\<lparr>os := s1\<rparr>))"
    using m by (intro bexI[of _ sel] conjI) 
next
  assume "\<forall>sel\<in>set (last_som_elements st). som_id sel \<noteq> sid"
  then have "find (\<lambda>sel. som_id sel = sid) (last_som_elements st) = None"
    by (auto simp: find_None_iff)
  then show "\<exists>r. handle_click env (args\<lparr>ca_som_id := Some sid\<rparr>) st = (Inr r, st)
           \<and> \<not> clicked r \<and> cr_error r \<noteq> None"
    by (simp add: handle_click_def click_som_def click_failed_def)
qed

text \<open>
  Claim C7 on the example snapshot: id 5 has the rectangle (100, 200, 40, 20) and is
  clicked at (120, 210); id 9 is absent.
\<close>

theorem click_by_som_id_witness:
  "5 \<in> som_id ` set (last_som_elements desk_snapshot)
   \<and> 9 \<notin> som_id ` set (last_som_elements desk_snapshot)
   \<and> handle_click desk_env
          \<lparr>ca_app_name = ''Calculator'', ca_element_text = [], ca_element_type = [],
           ca_coordinates = None, ca_click_type = ''single'', ca_location_hint = [],
           ca_som_id = Some 5\<rparr> desk_snapshot
       = (Inr ((click_done ''som_id'')
                 \<lparr>cr_som_id := Some 5, cr_text := Some ''OK'', cr_x := Some 120,
                  cr_y := Some 210, cr_state_changed := Some False\<rparr>),
          desk_snapshot\<lparr>os := \<lparr>clock = 1000 + 15 / 100, sent = [Click 120 210 Single]\<rparr>\<rparr>)
   \<and> \<not> clicked (projr (fst (handle_click desk_env
          \<lparr>ca_app_name = ''Calculator'', ca_element_text = [], ca_element_type = [],
           ca_coordinates = None, ca_click_type = ''single'', ca_location_hint = [],
           ca_som_id = Some 9\<rparr> desk_snapshot)))"
proof -
  let ?args = "\<lparr>ca_app_name = ''Calculator'', ca_element_text = [], ca_element_type = [],
           ca_coordinates = None, ca_click_type = ''single'', ca_location_hint = [],
           ca_som_id = None\<rparr>"
  have p5: "\<exists>sel\<in>set (last_som_elements desk_snapshot). som_id sel = 5" by code_simp
  have p9: "\<forall>sel\<in>set (last_som_elements desk_snapshot). som_id sel \<noteq> 9" by code_simp
  have run5: "handle_click desk_env (?args\<lparr>ca_som_id := Some 5\<rparr>) desk_snapshot
       = (Inr ((click_done ''som_id'')
                 \<lparr>cr_som_id := Some 5, cr_text := Some ''OK'', cr_x := Some 120,
                  cr_y := Some 210, cr_state_changed := Some False\<rparr>),
          desk_snapshot\<lparr>os := \<lparr>clock = 1000 + 15 / 100, sent = [Click 120 210 Single]\<rparr>\<rparr>)"
    by code_simp
  note c = click_by_som_id[where env = desk_env and st = desk_snapshot and args = ?args]
  from c[where sid = 9, THEN conjunct2, THEN mp, OF p9]
  have run9: "\<not> clicked (projr (fst (handle_click desk_env (?args\<lparr>ca_som_id := Some 9\<rparr>) desk_snapshot)))"
    by (elim exE conjE) simp
  have p5': "5 \<in> som_id ` set (last_som_elements desk_snapshot)" using p5 by auto
  have p9': "9 \<notin> som_id ` set (last_som_elements desk_snapshot)" using p9 by auto
  from c[where sid = 5, THEN conjunct1, THEN mp, OF p5] p5' p9' run5 run9
  show ?thesis by simp
qed

text \<open>
  The counterexample to claim C7 as stated: with the pointer in a corner of the screen
  the click on id 5, which is in the snapshot, raises \<open>FailSafeException\<close>; the handler
  returns no result and nothing is sent.
\<close>

theorem click_by_som_id_failsafe_counterexample:
  "5 \<in> som_id ` set (last_som_elements desk_snapshot)
   \<and> handle_click desk_env_failsafe
          \<lparr>ca_app_name = ''Calculator'', ca_element_text = [], ca_element_type = [],
           ca_coordinates = None, ca_click_type = ''single'', ca_location_hint = [],
           ca_som_id = Some 5\<rparr> desk_snapshot
       = (Inl fail_safe, desk_snapshot)"
proof -
  have p5: "\<exists>sel\<in>set (last_som_elements desk_snapshot). som_id sel = 5" by code_simp
  have "handle_click desk_env_failsafe
          \<lparr>ca_app_name = ''Calculator'', ca_element_text = [], ca_element_type = [],
           ca_coordinates = None, ca_click_type = ''single'', ca_location_hint = [],
           ca_som_id = Some 5\<rparr> desk_snapshot
       = (Inl fail_safe, desk_snapshot)"
    by code_simp
  then show ?thesis using p5 by auto
qed

section \<open>Typing text\<close>

text \<open>
  Claim C10, corrected. As stated the claim fails: the click on the centre that follows
  a failed click on the target element is made inside the \<open>except\<close> handler, and the
  typing calls are outside any \<open>try\<close>; when one of them raises, \<open>handle_type_text\<close> returns
  no result (the counterexample below). What holds, when the application name is given
  and its window resolves: if neither the fallback click nor the typing raises, the
  handler returns \<open>typed = true\<close> with no error, whatever the attempt to click the target
  element did, and the keys are sent in the state that attempt left behind; an exception
  of the fallback click or of the typing leaves the handler. When the target is not
  located the attempt sends no input and raises nothing; when clicking the located
  element raises, the handler clicks the centre, if the result has one, and goes on if
  that click returns. ASCII text is sent with \<open>pyautogui.write\<close>, followed by Enter if
  asked.
\<close>

theorem type_text_ignores_target_failure:
  "(ta_app_name args \<noteq> [] \<and> find_window env (ta_app_name args) st = (Some window, st1)
      \<and> click_target env args (focus_window env window st1) = (None, st2)
      \<and> type_keys env args (os st2) = (None, s3)
    \<longrightarrow> handle_type_text env args st
          = (Inr \<lparr>typed = True, tr_text_length = Some (length (ta_text args)),
                  tr_press_enter = Some (ta_press_enter args), tr_error = None\<rparr>,
             st2\<lparr>os := s3\<rparr>))
   \<and> (ta_app_name args \<noteq> [] \<and> find_window env (ta_app_name args) st = (Some window, st1)
        \<and> click_target env args (focus_window env window st1) = (Some e, st2)
      \<longrightarrow> handle_type_text env args st = (Inl e, st2))
   \<and> (ta_app_name args \<noteq> [] \<and> find_window env (ta_app_name args) st = (Some window, st1)
        \<and> click_target env args (focus_window env window st1) = (None, st2)
        \<and> type_keys env args (os st2) = (Some e, s3)
      \<longrightarrow> handle_type_text env args st = (Inl e, st2\<lparr>os := s3\<rparr>))
   \<and> (ta_app_name args \<noteq> [] \<and> ta_target_element args \<noteq> []
        \<and> find_window env (ta_app_name args) st' = (Some window2, st3)
        \<and> smart_find env window2 (ta_target_element args) [] [] (os st3) = (result, s4)
        \<and> \<not> found result
      \<longrightarrow> click_target env args st' = (None, st3\<lparr>os := s4\<rparr>))
   \<and> (ta_app_name args \<noteq> [] \<and> ta_target_element args \<noteq> []
        \<and> find_window env (ta_app_name args) st' = (Some window2, st3)
        \<and> smart_find env window2 (ta_target_element args) [] [] (os st3) = (result, s4)
        \<and> found result \<and> fr_element result = Some element
        \<and> e_click_input env element s4 = (False, s5)
      \<longrightarrow> click_target env args st'
            = (case fr_center result of
                 None \<Rightarrow> (None, st3\<lparr>os := s5\<rparr>)
               | Some (cx, cy) \<Rightarrow>
                   (case e_inject env (Click cx cy Single) s5 of
                      (None, s6) \<Rightarrow> (None, st3\<lparr>os := e_sleep env (1 / 10) s6\<rparr>)
                    | (Some e, s6) \<Rightarrow> (Some e, st3\<lparr>os := s6\<rparr>))))
   \<and> (ta_text args \<noteq> [] \<and> list_all (\<lambda>c. (of_char c :: nat) < 128) (ta_text args)
      \<longrightarrow> type_keys env args s
            = (case e_inject env (Write (ta_text args)) s of
                 (Some e, s1) \<Rightarrow> (Some e, s1)
               | (None, s1) \<Rightarrow>
                   if ta_press_enter args then e_inject env (Press ''enter'') s1
                   else (None, s1)))"
proof (intro conjI impI)
  assume "ta_app_name args \<noteq> [] \<and> find_window env (ta_app_name args) st = (Some window, st1)
      \<and> click_target env args (focus_window env window st1) = (None, st2)
      \<and> type_keys env args (os st2) = (None, s3)"
  then show "handle_type_text env args st
          = (Inr \<lparr>typed = True, tr_text_length = Some (length (ta_text args)),
                  tr_press_enter = Some (ta_press_enter args), tr_error = None\<rparr>,
             st2\<lparr>os := s3\<rparr>)"
    by (simp add: handle_type_text_def)
next
  assume "ta_app_name args \<noteq> [] \<and> find_window env (ta_app_name args) st = (Some window, st1)
        \<and> click_target env args (focus_window env window st1) = (Some e, st2)"
  then show "handle_type_text env args st = (Inl e, st2)"
    by (simp add: handle_type_text_def)
next
  assume "ta_app_name args \<noteq> [] \<and> find_window env (ta_app_name args) st = (Some window, st1)
        \<and> click_target env args (focus_window env window st1) = (None, st2)
        \<and> type_keys env args (os st2) = (Some e, s3)"
  then show "handle_type_text env args st = (Inl e, st2\<lparr>os := s3\<rparr>)"
    by (simp add: handle_type_text_def)
next
  assume "ta_app_name args \<noteq> [] \<and> ta_target_element args \<noteq> []
        \<and> find_window env (ta_app_name args) st' = (Some window2, st3)
        \<and> smart_find env window2 (ta_target_element args) [] [] (os st3) = (result, s4)
        \<and> \<not> found result"
  then show "click_target env args st' = (None, st3\<lparr>os := s4\<rparr>)"
    by (simp add: click_target_def)
next
  assume "ta_app_name args \<noteq> [] \<and> ta_target_element args \<noteq> []
        \<and> find_window env (ta_app_name args) st' = (Some window2, st3)
        \<and> smart_find env window2 (ta_target_element args) [] [] (os st3) = (result, s4)
        \<and> found result \<and> fr_element result = Some element
        \<and> e_click_input env element s4 = (False, s5)"
  then show "click_target env args st'
            = (case fr_center result of
                 None \<Rightarrow> (None, st3\<lparr>os := s5\<rparr>)
               | Some (cx, cy) \<Rightarrow>
                   (case e_inject env (Click cx cy Single) s5 of
                      (None, s6) \<Rightarrow> (None, st3\<lparr>os := e_sleep env (1 / 10) s6\<rparr>)
                    | (Some e, s6) \<Rightarrow> (Some e, st3\<lparr>os := s6\<rparr>)))"
    by (auto simp: click_target_def split: option.splits prod.splits)
next
  assume "ta_text args \<noteq> [] \<and> list_all (\<lambda>c. (of_char c :: nat) < 128) (ta_text args)"
  then show "type_keys env args s
            = (case e_inject env (Write (ta_text args)) s of
                 (Some e, s1) \<Rightarrow> (Some e, s1)
               | (None, s1) \<Rightarrow>
                   if ta_press_enter args then e_inject env (Press ''enter'') s1
                   else (None, s1))"
    by (simp add: type_keys_def)
qed

text \<open>
  Claim C10 on the example desktop: the target \<open>zzz\<close> is not located and the text is
  typed with nothing else sent; clicking the located button 7 raises, the handler clicks
  its centre instead and types. Both calls report \<open>typed = true\<close> and no error.
\<close>

theorem type_text_ignores_target_failure_witness:
  "find_window desk_env ''Calculator'' desk0 = (Some 11, desk0)
   \<and> \<not> found (fst (smart_find desk_env 11 ''zzz'' [] [] (os desk0)))
   \<and> handle_type_text desk_env
        \<lparr>ta_app_name = ''Calculator'', ta_text = ''42'', ta_target_element = ''zzz'',
         ta_press_enter = False\<rparr> desk0
       = (Inr \<lparr>typed = True, tr_text_length = Some 2, tr_press_enter = Some False,
               tr_error = None\<rparr>,
          desk0\<lparr>os := \<lparr>clock = 1000, sent = [Write ''42'']\<rparr>\<rparr>)
   \<and> e_click_input desk_env 7 (os desk0) = (False, os desk0)
   \<and> handle_type_text desk_env
        \<lparr>ta_app_name = ''Calculator'', ta_text = ''42'', ta_target_element = ''7'',
         ta_press_enter = False\<rparr> desk0
       = (Inr \<lparr>typed = True, tr_text_length = Some 2, tr_press_enter = Some False,
               tr_error = None\<rparr>,
          desk0\<lparr>os := \<lparr>clock = 1000 + 1 / 10,
                         sent = [Click 150 320 Single, Write ''42'']\<rparr>\<rparr>)"
proof -
  let ?a = "\<lparr>ta_app_name = ''Calculator'', ta_text = ''42'', ta_target_element = ''zzz'',
         ta_press_enter = False\<rparr>"
  let ?b = "\<lparr>ta_app_name = ''Calculator'', ta_text = ''42'', ta_target_element = ''7'',
         ta_press_enter = False\<rparr>"
  let ?sa = "\<lparr>clock = 1000, sent = [Write ''42'']\<rparr>"
  let ?sb = "\<lparr>clock = 1000 + 1 / 10, sent = [Click 150 320 Single, Write ''42'']\<rparr>"
  let ?mb = "desk0\<lparr>os := \<lparr>clock = 1000 + 1 / 10, sent = [Click 150 320 Single]\<rparr>\<rparr>"
  have fw: "find_window desk_env ''Calculator'' desk0 = (Some 11, desk0)" by code_simp
  have nf: "\<not> found (fst (smart_find desk_env 11 ''zzz'' [] [] (os desk0)))" by code_simp
  have ci: "e_click_input desk_env 7 (os desk0) = (False, os desk0)" by code_simp
  have ca: "click_target desk_env ?a (focus_window desk_env 11 desk0) = (None, desk0)"
    by code_simp
  have ka: "type_keys desk_env ?a (os desk0) = (None, ?sa)" by code_simp
  have cb: "click_target desk_env ?b (focus_window desk_env 11 desk0) = (None, ?mb)"
    by code_simp
  have kb: "type_keys desk_env ?b (os ?mb) = (None, ?sb)" by code_simp
  have mb: "?mb\<lparr>os := ?sb\<rparr> = desk0\<lparr>os := ?sb\<rparr>" by simp
  have ha: "ta_app_name ?a \<noteq> [] \<and> find_window desk_env (ta_app_name ?a) desk0 = (Some 11, desk0)
      \<and> click_target desk_env ?a (focus_window desk_env 11 desk0) = (None, desk0)
      \<and> type_keys desk_env ?a (os desk0) = (None, ?sa)"
    using fw ca ka by simp
  have hb: "ta_app_name ?b \<noteq> [] \<and> find_window desk_env (ta_app_name ?b) desk0 = (Some 11, desk0)
      \<and> click_target desk_env ?b (focus_window desk_env 11 desk0) = (None, ?mb)
      \<and> type_keys desk_env ?b (os ?mb) = (None, ?sb)"
    using fw cb kb by simp
  note ta = type_text_ignores_target_failure[where env = desk_env and args = ?a and st = desk0
      and window = 11 and ?st1.0 = desk0 and ?st2.0 = desk0 and ?s3.0 = ?sa,
      THEN conjunct1, THEN mp, OF ha]
  note tb = type_text_ignores_target_failure[where env = desk_env and args = ?b and st = desk0
      and window = 11 and ?st1.0 = desk0 and ?st2.0 = ?mb and ?s3.0 = ?sb,
      THEN conjunct1, THEN mp, OF hb]
  from ta have ra: "handle_type_text desk_env ?a desk0
       = (Inr \<lparr>typed = True, tr_text_length = Some 2, tr_press_enter = Some False,
               tr_error = None\<rparr>, desk0\<lparr>os := ?sa\<rparr>)"
    by simp
  from tb mb have rb: "handle_type_text desk_env ?b desk0
       = (Inr \<lparr>typed = True, tr_text_length = Some 2, tr_press_enter = Some False,
               tr_error = None\<rparr>, desk0\<lparr>os := ?sb\<rparr>)"
    by simp
  from fw nf ra ci rb show ?thesis by (intro conjI)
qed

text \<open>
  The counterexample to claim C10 as stated, with the pointer in a corner of the screen:
  the window resolves and the click on the located button 7 fails, then the click on its
  centre raises \<open>FailSafeException\<close> and the handler is left without a result; and when
  the target \<open>zzz\<close> is not located, \<open>pyautogui.write\<close> raises the same way. Nothing is
  typed in either call.
\<close>

theorem type_text_fallback_click_raises_counterexample:
  "find_window desk_env_failsafe ''Calculator'' desk0 = (Some 11, desk0)
   \<and> found (fst (smart_find desk_env_failsafe 11 ''7'' [] [] (os desk0)))
   \<and> e_click_input desk_env_failsafe 7 (os desk0) = (False, os desk0)
   \<and> handle_type_text desk_env_failsafe
        \<lparr>ta_app_name = ''Calculator'', ta_text = ''42'', ta_target_element = ''7'',
         ta_press_enter = False\<rparr> desk0
       = (Inl fail_safe, desk0)
   \<and> \<not> found (fst (smart_find desk_env_failsafe 11 ''zzz'' [] [] (os desk0)))
   \<and> handle_type_text desk_env_failsafe
        \<lparr>ta_app_name = ''Calculator'', ta_text = ''42'', ta_target_element = ''zzz'',
         ta_press_enter = False\<rparr> desk0
       = (Inl fail_safe, desk0)"
  by code_simp

section \<open>The visual snapshot\<close>

lemma som_loop_length:
  "int (length acc) \<le> min counter 49
     \<Longrightarrow> (case som_loop draw scale rect sw sh els counter acc of
            Inl e \<Rightarrow> True
          | Inr som_elements \<Rightarrow> length som_elements \<le> 50)"
proof (induction els arbitrary: counter acc)
  case Nil
  then show ?case by simp
next
  case (Cons el els)
  let ?P = "\<lambda>r. (case r of Inl e \<Rightarrow> True | Inr (som_elements :: som_element list) \<Rightarrow> length som_elements \<le> 50)"
  have skip: "?P (som_loop draw scale rect sw sh els counter acc)"
    using Cons.IH[OF Cons.prems] .
  have bump: "?P (som_loop draw scale rect sw sh els (counter + 1) acc)"
    using Cons.IH[of acc "counter + 1"] Cons.prems by simp
  have app: "counter + 1 < 50 \<Longrightarrow>
        ?P (som_loop draw scale rect sw sh els (counter + 1) (acc @ [e]))" for e
    using Cons.IH[of "acc @ [e]" "counter + 1"] Cons.prems by simp
  have ret: "length (acc @ [e]) \<le> 50" for e using Cons.prems by simp
  show ?case
    using skip bump app ret
    by (simp add: Let_def split: option.splits)
qed

lemma som_loop_increasing:
  "sorted_wrt (<) (map som_id acc) \<Longrightarrow> \<forall>e\<in>set acc. 1 \<le> som_id e \<and> som_id e \<le> counter
     \<Longrightarrow> 0 \<le> counter
     \<Longrightarrow> (case som_loop draw scale rect sw sh els counter acc of
            Inl e \<Rightarrow> True
          | Inr som_elements \<Rightarrow>
              sorted_wrt (<) (map som_id som_elements)
              \<and> (\<forall>e\<in>set som_elements. 1 \<le> som_id e))"
proof (induction els arbitrary: counter acc)
  case Nil
  then show ?case by simp
next
  case (Cons el els)
  let ?P = "\<lambda>r. (case r of Inl e \<Rightarrow> True
                  | Inr (som_elements :: som_element list) \<Rightarrow>
                      sorted_wrt (<) (map som_id som_elements)
                      \<and> (\<forall>e\<in>set som_elements. 1 \<le> som_id e))"
  have skip: "?P (som_loop draw scale rect sw sh els counter acc)"
    using Cons.IH[OF Cons.prems] .
  have bump: "?P (som_loop draw scale rect sw sh els (counter + 1) acc)"
    using Cons.IH[of acc "counter + 1"] Cons.prems by fastforce
  let ?e = "\<lambda>er. \<lparr>som_id = counter + 1, som_text = take 80 (el_text el),
                   som_type = str_lower (el_control_type el), som_rect = er\<rparr>"
  have ok: "sorted_wrt (<) (map som_id (acc @ [?e er]))
            \<and> (\<forall>x\<in>set (acc @ [?e er]). 1 \<le> som_id x \<and> som_id x \<le> counter + 1)" for er
    using Cons.prems by (fastforce simp: sorted_wrt_append)
  have app: "?P (som_loop draw scale rect sw sh els (counter + 1) (acc @ [?e er]))"
    for er
    using Cons.IH[of "acc @ [?e er]" "counter + 1"] ok[of er] Cons.prems(3) by simp
  have ret: "sorted_wrt (<) (map som_id (acc @ [?e er]))
            \<and> (\<forall>x\<in>set (acc @ [?e er]). 1 \<le> som_id x)" for er
    using ok[of er] by blast
  show ?case
  proof (cases "el_rect el")
    case None
    then show ?thesis using skip by simp
  next
    case (Some er)
    then show ?thesis
      using skip bump app[of er] ret[of er]
      by (simp add: Let_def split: option.splits del: sorted_wrt_append map_append set_append)
  qed
qed

lemma som_manifest_bounds:
  "(case som_loop draw scale rect sw sh els 0 [] of
      Inl e \<Rightarrow> True
    | Inr som_elements \<Rightarrow>
        length som_elements \<le> 50
        \<and> sorted_wrt (<) (map som_id som_elements)
        \<and> (\<forall>e\<in>set som_elements. 1 \<le> som_id e))"
  using som_loop_length[of "[]" 0 draw scale rect sw sh els]
    som_loop_increasing[of "[]" 0 draw scale rect sw sh els]
  by (simp split: sum.splits)

text \<open>
  An element whose left edge is exactly at the right edge of the screenshot passes the
  bounds test (\<open>ex > screenshot.width\<close> is false), and its outline box is inverted: Pillow
  raises, \<open>_read_state_visual\<close> is left by the exception and no manifest is stored.
\<close>

lemma edge_element_raises:
  "read_state_visual desk_env 11 ''Calculator''
     [\<lparr>el_text = ''='', el_control_type = ''Button'',
       el_rect = Some \<lparr>rect_x = 420, rect_y = 300, rect_w = 60, rect_h = 40\<rparr>\<rparr>] desk0
   = (Inl \<lparr>exn_class = ''ValueError'',
            exn_message = ''x1 must be greater than or equal to x0''\<rparr>, desk0)"
  by code_simp

text \<open>
  Claim C4: the ids of the manifest are exactly 1..N, and at most 50 elements are
  labelled. The manifest has at most 50 elements and its ids increase strictly from 1 or
  more (the lemma above), but they are not dense: \<open>_read_state_visual\<close> adds 1 to \<open>som_id\<close>
  before it skips an element that lies outside the screenshot, so the skipped element
  uses up an id. Here the first of two buttons lies left of the window; the manifest
  holds one element, and its id is 2.
\<close>

theorem som_ids_skip_after_offscreen_element:
  "(case read_state_visual desk_env 11 ''Calculator'' desk_elements desk0 of
      (Inr vs, st') \<Rightarrow> map som_id (vs_som_elements vs) = [2] \<and> vs_som_count vs = 1
                        \<and> map som_id (last_som_elements st') = [2]
    | (Inl e, st') \<Rightarrow> False)"
  by code_simp

section \<open>The dispatch boundary and the daemon loop\<close>

lemma dispatch_handler_raised:
  assumes "tool_id \<in> set tool_names" and "impl tool_id args st = (Inl e, st1)"
  shows "dispatch env impl (JStr tool_id) args st
           = (Inr (JObj [(''error'', JStr (''['' @ tool_id @ ''] '' @ exn_class e @ '': ''
                                              @ exn_message e)),
                         (''traceback'', JStr (e_format_exc env e))]), st1)"
  using assms by (simp add: dispatch_def lookup_handler_def TOOL_HANDLERS_def error_result_def)

lemma dispatch_returns:
  "\<exists>result st1. dispatch env impl (JStr tool_id) args st = (Inr result, st1)"
  by (auto simp: dispatch_def lookup_handler_def split: option.splits prod.splits sum.splits
        json.splits)

lemma daemon_loop_blank:
  assumes "str_strip raw = []"
  shows "daemon_loop env loads impl (raw # rest) st = daemon_loop env loads impl rest st"
  using assms by (simp add: Let_def)

lemma daemon_loop_invalid_json:
  assumes "str_strip raw \<noteq> []" and "loads (str_strip raw) = JSONDecodeError"
  shows "daemon_loop env loads impl (raw # rest) st
           = (case daemon_loop env loads impl rest st of
                (out, fin, st') \<Rightarrow> (JObj [(''error'', JStr ''Invalid JSON'')] # out, fin, st'))"
  using assms by (simp add: Let_def)

lemma daemon_loop_dispatched:
  assumes "str_strip raw \<noteq> []"
    and "loads (str_strip raw) = Decoded (JObj msg)"
    and "map_of msg ''tool'' = Some (JStr tool_id)"
    and "tool_id \<notin> {''_ping'', ''_cache'', ''_quit''}"
    and "dispatch env impl (JStr tool_id)
           (case map_of msg ''args'' of None \<Rightarrow> JObj [] | Some a \<Rightarrow> a) st = (Inr result, st1)"
  shows "daemon_loop env loads impl (raw # rest) st
           = (case daemon_loop env loads impl rest st1 of
                (out, fin, st') \<Rightarrow>
                  (JObj [(''id'', case map_of msg ''id'' of None \<Rightarrow> JStr [] | Some i \<Rightarrow> i),
                         (''result'', result)] # out, fin, st'))"
  using assms by (auto simp: Let_def dict_get_def split: option.splits)

text \<open>
  Claim C8, corrected. As stated the claim fails in two places (the counterexample
  below): a blank line gets no response, and an exception can leave \<open>dispatch\<close>, since the
  lookup of the handler is outside its \<open>try\<close>. What holds: an input line that is blank
  after stripping is skipped without a response. A non-blank input line on which
  \<open>json.loads\<close> raises \<open>JSONDecodeError\<close> makes the daemon write \<open>{"error": "Invalid JSON"}\<close>
  and go on with the remaining lines. For a tool id that is a string, \<open>dispatch\<close> always
  returns a result; when the handler of a known tool raises, the result's \<open>error\<close> is the
  tool name in brackets, the exception class name and the message, with the traceback
  next to it. A request line that is an object with a string tool id other than
  \<open>_ping\<close>, \<open>_cache\<close> and \<open>_quit\<close> is answered with the result of \<open>dispatch\<close> under the
  request's id, and the daemon goes on with the remaining lines from the state
  \<open>dispatch\<close> left; so it is when the handler raises.
\<close>

theorem daemon_survives_bad_lines_and_handler_faults:
  "(str_strip raw = []
    \<longrightarrow> daemon_loop env loads impl (raw # rest) st = daemon_loop env loads impl rest st)
   \<and> (str_strip raw \<noteq> [] \<and> loads (str_strip raw) = JSONDecodeError
      \<longrightarrow> daemon_loop env loads impl (raw # rest) st
            = (case daemon_loop env loads impl rest st of
                 (out, fin, st') \<Rightarrow> (JObj [(''error'', JStr ''Invalid JSON'')] # out, fin, st')))
   \<and> (\<exists>result st1. dispatch env impl (JStr tool_id) args st = (Inr result, st1))
   \<and> (tool_id \<in> set tool_names \<and> impl tool_id args st = (Inl e, st1)
      \<longrightarrow> dispatch env impl (JStr tool_id) args st
            = (Inr (JObj [(''error'', JStr (''['' @ tool_id @ ''] '' @ exn_class e @ '': ''
                                               @ exn_message e)),
                          (''traceback'', JStr (e_format_exc env e))]), st1))
   \<and> (str_strip raw \<noteq> [] \<and> loads (str_strip raw) = Decoded (JObj msg)
        \<and> map_of msg ''tool'' = Some (JStr tool_id)
        \<and> tool_id \<notin> {''_ping'', ''_cache'', ''_quit''}
      \<longrightarrow> (\<exists>result st1.
             dispatch env impl (JStr tool_id)
               (case map_of msg ''args'' of None \<Rightarrow> JObj [] | Some a \<Rightarrow> a) st = (Inr result, st1)
             \<and> daemon_loop env loads impl (raw # rest) st
                 = (case daemon_loop env loads impl rest st1 of
                      (out, fin, st') \<Rightarrow>
                        (JObj [(''id'', case map_of msg ''id'' of None \<Rightarrow> JStr [] | Some i \<Rightarrow> i),
                               (''result'', result)] # out, fin, st'))))
   \<and> (str_strip raw \<noteq> [] \<and> loads (str_strip raw) = Decoded (JObj msg)
        \<and> map_of msg ''tool'' = Some (JStr tool_id) \<and> tool_id \<in> set tool_names
        \<and> impl tool_id (case map_of msg ''args'' of None \<Rightarrow> JObj [] | Some a \<Rightarrow> a) st
            = (Inl e, st1)
      \<longrightarrow> daemon_loop env loads impl (raw # rest) st
            = (case daemon_loop env loads impl rest st1 of
                 (out, fin, st') \<Rightarrow>
                   (JObj [(''id'', case map_of msg ''id'' of None \<Rightarrow> JStr [] | Some i \<Rightarrow> i),
                          (''result'',
                           JObj [(''error'', JStr (''['' @ tool_id @ ''] '' @ exn_class e
                                                     @ '': '' @ exn_message e)),
                                 (''traceback'', JStr (e_format_exc env e))])] # out,
                    fin, st')))"
proof (intro conjI impI)
  assume "str_strip raw = []"
  then show "daemon_loop env loads impl (raw # rest) st = daemon_loop env loads impl rest st"
    by (rule daemon_loop_blank)
next
  assume "str_strip raw \<noteq> [] \<and> loads (str_strip raw) = JSONDecodeError"
  then show "daemon_loop env loads impl (raw # rest) st
          = (case daemon_loop env loads impl rest st of
               (out, fin, st') \<Rightarrow> (JObj [(''error'', JStr ''Invalid JSON'')] # out, fin, st'))"
    using daemon_loop_invalid_json by blast
next
  show "\<exists>result st1. dispatch env impl (JStr tool_id) args st = (Inr result, st1)"
    by (rule dispatch_returns)
next
  assume "tool_id \<in> set tool_names \<and> impl tool_id args st = (Inl e, st1)"
  then show "dispatch env impl (JStr tool_id) args st
            = (Inr (JObj [(''error'', JStr (''['' @ tool_id @ ''] '' @ exn_class e @ '': ''
                                               @ exn_message e)),
                          (''traceback'', JStr (e_format_exc env e))]), st1)"
    using dispatch_handler_raised by blast
next
  let ?args = "case map_of msg ''args'' of None \<Rightarrow> JObj [] | Some a \<Rightarrow> a"
  assume a: "str_strip raw \<noteq> [] \<and> loads (str_strip raw) = Decoded (JObj msg)
        \<and> map_of msg ''tool'' = Some (JStr tool_id)
        \<and> tool_id \<notin> {''_ping'', ''_cache'', ''_quit''}"
  obtain result st2 where d: "dispatch env impl (JStr tool_id) ?args st = (Inr result, st2)"
    using dispatch_returns[of env impl tool_id ?args st] by (elim exE)
  from a have r: "str_strip raw \<noteq> []" "loads (str_strip raw) = Decoded (JObj msg)"
    "map_of msg ''tool'' = Some (JStr tool_id)" "tool_id \<notin> {''_ping'', ''_cache'', ''_quit''}"
    by blast+
  show "\<exists>result st1.
             dispatch env impl (JStr tool_id) ?args st = (Inr result, st1)
             \<and> daemon_loop env loads impl (raw # rest) st
                 = (case daemon_loop env loads impl rest st1 of
                      (out, fin, st') \<Rightarrow>
                        (JObj [(''id'', case map_of msg ''id'' of None \<Rightarrow> JStr [] | Some i \<Rightarrow> i),
                               (''result'', result)] # out, fin, st'))"
    using d daemon_loop_dispatched[where loads = loads and raw = raw, OF r d]
    by (intro exI conjI)
next
  let ?args = "case map_of msg ''args'' of None \<Rightarrow> JObj [] | Some a \<Rightarrow> a"
  assume a: "str_strip raw \<noteq> [] \<and> loads (str_strip raw) = Decoded (JObj msg)
        \<and> map_of msg ''tool'' = Some (JStr tool_id) \<and> tool_id \<in> set tool_names
        \<and> impl tool_id ?args st = (Inl e, st1)"
  then have sp: "tool_id \<notin> {''_ping'', ''_cache'', ''_quit''}"
    by (auto simp: tool_names_def)
  from a have d: "dispatch env impl (JStr tool_id) ?args st
                    = (Inr (JObj [(''error'', JStr (''['' @ tool_id @ ''] '' @ exn_class e @ '': ''
                                                  @ exn_message e)),
                             (''traceback'', JStr (e_format_exc env e))]), st1)"
    using dispatch_handler_raised by blast
  from a have r: "str_strip raw \<noteq> []" "loads (str_strip raw) = Decoded (JObj msg)"
    "map_of msg ''tool'' = Some (JStr tool_id)"
    by blast+
  show "daemon_loop env loads impl (raw # rest) st
            = (case daemon_loop env loads impl rest st1 of
                 (out, fin, st') \<Rightarrow>
                   (JObj [(''id'', case map_of msg ''id'' of None \<Rightarrow> JStr [] | Some i \<Rightarrow> i),
                          (''result'',
                           JObj [(''error'', JStr (''['' @ tool_id @ ''] '' @ exn_class e
                                                     @ '': '' @ exn_message e)),
                                 (''traceback'', JStr (e_format_exc env e))])] # out,
                    fin, st'))"
    using daemon_loop_dispatched[where loads = loads and raw = raw, OF r sp d] .
qed

text \<open>
  The counterexample to claim C8 as stated. A line of one space is not valid JSON, but
  \<open>run_daemon\<close> strips each line and skips an empty one before it decodes: the only
  response is the one to the ping that follows. And a request whose \<open>tool\<close> is a list
  makes \<open>TOOL_HANDLERS.get\<close> raise \<open>TypeError\<close> before the \<open>try\<close> of \<open>dispatch\<close>: the exception
  leaves \<open>dispatch\<close> and ends the daemon, and the ping that follows is not answered.
\<close>

theorem daemon_unanswered_lines_counterexample:
  "desk_loads (str_strip '' '') = JSONDecodeError
   \<and> daemon_loop desk_env desk_loads desk_impl ['' '', ping_line] desk0
       = ([JObj [(''id'', JStr ''a2''), (''result'', JObj [(''pong'', JBool True)])]],
          EndOfInput, desk0)
   \<and> dispatch desk_env desk_impl (JArr [JStr ''gui.click'']) (JObj []) desk0
       = (Inl (unhashable ''list''), desk0)
   \<and> daemon_loop desk_env desk_loads desk_impl [list_tool_line, ping_line] desk0
       = ([], Crashed (unhashable ''list''), desk0)"
  by code_simp

text \<open>
  Claim C8 on four lines: the line that is not JSON is answered, the blank line is not,
  the click whose handler raises and the ping are answered, in order, and the loop ends
  with the input.
\<close>

theorem daemon_survives_bad_lines_and_handler_faults_witness:
  "str_strip ''not json'' \<noteq> [] \<and> desk_loads (str_strip ''not json'') = JSONDecodeError
   \<and> desk_impl ''gui.click'' (JObj []) desk0 = (Inl fail_safe, desk0)
   \<and> daemon_loop desk_env desk_loads desk_impl [''not json'', '' '', click_line, ping_line] desk0
       = ([JObj [(''error'', JStr ''Invalid JSON'')],
           JObj [(''id'', JStr ''a1''),
                 (''result'',
                  JObj [(''error'',
                         JStr ''[gui.click] FailSafeException: PyAutoGUI fail-safe triggered''),
                        (''traceback'',
                         JStr ''Traceback (most recent call last): FailSafeException'')])],
           JObj [(''id'', JStr ''a2''), (''result'', JObj [(''pong'', JBool True)])]],
          EndOfInput, desk0)"
proof -
  have h: "str_strip ''not json'' \<noteq> [] \<and> desk_loads (str_strip ''not json'') = JSONDecodeError"
    by code_simp
  have b: "str_strip '' '' = []" by code_simp
  have i: "desk_impl ''gui.click'' (JObj []) desk0 = (Inl fail_safe, desk0)"
    by code_simp
  have rest: "daemon_loop desk_env desk_loads desk_impl [click_line, ping_line] desk0
       = ([JObj [(''id'', JStr ''a1''),
                 (''result'',
                  JObj [(''error'',
                         JStr ''[gui.click] FailSafeException: PyAutoGUI fail-safe triggered''),
                        (''traceback'',
                         JStr ''Traceback (most recent call last): FailSafeException'')])],
           JObj [(''id'', JStr ''a2''), (''result'', JObj [(''pong'', JBool True)])]],
          EndOfInput, desk0)"
    by code_simp
  note first = daemon_survives_bad_lines_and_handler_faults[where raw = "''not json''"
      and loads = desk_loads and env = desk_env and impl = desk_impl
      and rest = "['' '', click_line, ping_line]" and st = desk0,
      THEN conjunct2, THEN conjunct1, THEN mp, OF h]
  note blank = daemon_survives_bad_lines_and_handler_faults[where raw = "'' ''"
      and loads = desk_loads and env = desk_env and impl = desk_impl
      and rest = "[click_line, ping_line]" and st = desk0,
      THEN conjunct1, THEN mp, OF b]
  from first blank rest have "daemon_loop desk_env desk_loads desk_impl
                          [''not json'', '' '', click_line, ping_line] desk0
       = ([JObj [(''error'', JStr ''Invalid JSON'')],
           JObj [(''id'', JStr ''a1''),
                 (''result'',
                  JObj [(''error'',
                         JStr ''[gui.click] FailSafeException: PyAutoGUI fail-safe triggered''),
                        (''traceback'',
                         JStr ''Traceback (most recent call last): FailSafeException'')])],
           JObj [(''id'', JStr ''a2''), (''result'', JObj [(''pong'', JBool True)])]],
          EndOfInput, desk0)"
    by (simp only: prod.case)
  with h i show ?thesis by blast
qed

text \<open>
  \<open>json.loads\<close> can raise an exception that is not \<open>JSONDecodeError\<close>; nothing catches it,
  and the daemon ends without a response.
\<close>

lemma deep_line_ends_daemon:
  "daemon_loop desk_env desk_loads desk_impl [deep_line, ping_line] desk0
     = ([], Crashed \<lparr>exn_class = ''RecursionError'',
                      exn_message = ''maximum recursion depth exceeded''\<rparr>, desk0)"
  by code_simp

section \<open>Waiting for a condition\<close>




lemma wait_loop_unmet_check:
  assumes "e_time env (os st) - start < timeout_s" and "wait_check env c t st = (NotMet, st1)"
  shows "wait_loop env c t ms start timeout_s p st
           = wait_loop env c t ms start timeout_s (Suc p)
               (st1\<lparr>os := e_sleep env (3 / 10) (os st1)\<rparr>)"
  using assms by (subst wait_loop.simps) simp




end
